theory Spec2Isabelle
  imports Complex_Main
begin

section \<open>Paths\<close>

text \<open>
  A \<^verbatim>\<open>pathlib.Path\<close> is the list of its components. \<^verbatim>\<open>p.parent\<close> drops the last
  component (and leaves the empty path alone, as \<^verbatim>\<open>Path('.').parent\<close> does);
  \<^verbatim>\<open>p / s\<close> appends the components of the string \<^verbatim>\<open>s\<close>, split at the slashes.
\<close>

type_synonym path = "string list"

definition parent :: "path \<Rightarrow> path" where
  "parent p = butlast p"

fun split_slash :: "string \<Rightarrow> string \<Rightarrow> string list" where
  "split_slash cur [] = [cur]"
| "split_slash cur (c # cs) =
     (if c = CHR ''/'' then cur # split_slash [] cs else split_slash (cur @ [c]) cs)"

definition parts :: "string \<Rightarrow> string list" where
  "parts s = filter (\<lambda>c. c \<noteq> [] \<and> c \<noteq> ''.'') (split_slash [] s)"

definition joinpath :: "path \<Rightarrow> string \<Rightarrow> path" where
  "joinpath p s = p @ parts s"

definition endswith :: "string \<Rightarrow> string \<Rightarrow> bool" where
  "endswith s suf = (length suf \<le> length s \<and> drop (length s - length suf) s = suf)"

section \<open>Images, files and the filesystem\<close>

text \<open>
  An image is its pixel dimensions and a pixel buffer of an abstract type \<open>'px\<close>. A file
  holds either bytes that are no raster image (\<open>Raw\<close>, for instance the SVG text) or an
  image together with the encoding it was saved with: \<open>ICO sizes\<close> is the call
  \<^verbatim>\<open>save(path, "ICO", sizes=...)\<close> (\<open>None\<close> when the argument is left out) and
  \<open>PNG optimize\<close> the call \<^verbatim>\<open>save(path, "PNG", optimize=...)\<close>. The encoders are
  functions of the image and these options, so equal contents are equal bytes.
\<close>

datatype encoding = ICO "(nat \<times> nat) list option" | PNG bool

datatype 'px image = Image (im_width: nat) (im_height: nat) (pixels: 'px)

datatype 'px content = Raw string | Img encoding "'px image"

datatype 'px node = Dir | File "'px content"

type_synonym 'px filesystem = "path \<Rightarrow> 'px node option"

datatype exn =
    ImportError
  | FileExistsError
  | FileNotFoundError
  | NotADirectoryError
  | IsADirectoryError
  | UnidentifiedImageError
  | LibraryError string

definition is_dir :: "'px filesystem \<Rightarrow> path \<Rightarrow> bool" where
  "is_dir f p = (p = [] \<or> f p = Some Dir)"

definition exists :: "'px filesystem \<Rightarrow> path \<Rightarrow> bool" where
  "exists f p = (p = [] \<or> f p \<noteq> None)"

definition os_mkdir :: "path \<Rightarrow> 'px filesystem \<Rightarrow> exn + 'px filesystem" where
  "os_mkdir p f =
     (if exists f p then Inl FileExistsError
      else if is_dir f (parent p) then Inr (f(p \<mapsto> Dir))
      else if exists f (parent p) then Inl NotADirectoryError
      else Inl FileNotFoundError)"

text \<open>
  \<^verbatim>\<open>Path.mkdir(parents=False, exist_ok=...)\<close>: a missing parent is raised as it is; any
  other error is swallowed when \<^verbatim>\<open>exist_ok\<close> holds and the path is a directory.
\<close>

definition mkdir1 :: "path \<Rightarrow> bool \<Rightarrow> 'px filesystem \<Rightarrow> exn + 'px filesystem" where
  "mkdir1 p exist_ok f =
     (case os_mkdir p f of
        Inr f' \<Rightarrow> Inr f'
      | Inl e \<Rightarrow>
          if e = FileNotFoundError then Inl e
          else if \<not> exist_ok \<or> \<not> is_dir f p then Inl e
          else Inr f)"

text \<open>
  \<^verbatim>\<open>Path.mkdir(parents=True, exist_ok=...)\<close>: on a missing parent, make the parent (with
  its own parents, tolerating an existing one) and then the path itself without the
  \<^verbatim>\<open>parents\<close> flag. The recursion is on the components of the path, last one first.
\<close>

fun mkdir_rev :: "string list \<Rightarrow> bool \<Rightarrow> 'px filesystem \<Rightarrow> exn + 'px filesystem" where
  "mkdir_rev [] exist_ok f =
     (case os_mkdir [] f of
        Inr f' \<Rightarrow> Inr f'
      | Inl e \<Rightarrow>
          if e = FileNotFoundError then Inl e
          else if \<not> exist_ok \<or> \<not> is_dir f [] then Inl e
          else Inr f)"
| "mkdir_rev (c # rp) exist_ok f =
     (case os_mkdir (rev (c # rp)) f of
        Inr f' \<Rightarrow> Inr f'
      | Inl e \<Rightarrow>
          if e = FileNotFoundError then
            (case mkdir_rev rp True f of
               Inl e' \<Rightarrow> Inl e'
             | Inr f1 \<Rightarrow> mkdir1 (rev (c # rp)) exist_ok f1)
          else if \<not> exist_ok \<or> \<not> is_dir f (rev (c # rp)) then Inl e
          else Inr f)"

definition mkdir_parents :: "path \<Rightarrow> bool \<Rightarrow> 'px filesystem \<Rightarrow> exn + 'px filesystem" where
  "mkdir_parents p exist_ok f = mkdir_rev (rev p) exist_ok f"

definition write_file :: "path \<Rightarrow> 'px content \<Rightarrow> 'px filesystem \<Rightarrow> exn + 'px filesystem" where
  "write_file p c f =
     (if is_dir f p then Inl IsADirectoryError
      else if is_dir f (parent p) then Inr (f(p \<mapsto> File c))
      else if exists f (parent p) then Inl NotADirectoryError
      else Inl FileNotFoundError)"

definition read_file :: "path \<Rightarrow> 'px filesystem \<Rightarrow> exn + 'px content" where
  "read_file p f =
     (if is_dir f p then Inl IsADirectoryError
      else case f p of
        Some (File c) \<Rightarrow> Inr c
      | _ \<Rightarrow> Inl FileNotFoundError)"

definition os_unlink :: "path \<Rightarrow> 'px filesystem \<Rightarrow> exn + 'px filesystem" where
  "os_unlink p f =
     (if is_dir f p then Inl IsADirectoryError
      else if f p = None then Inl FileNotFoundError
      else Inr (f(p := None)))"

section \<open>The process: filesystem and an ordered log of what it did\<close>

text \<open>
  The messages the two scripts print (the texts carry emoji and formatted numbers; a
  constructor stands for each \<^verbatim>\<open>print\<close> call with the values it interpolates), the
  library and filesystem calls they make, and the events of a run in the order they happen.
\<close>

datatype msg =
    Missing_dependencies
  | Pip_install_pillow_cairosvg
  | Generating_from_SVG
  | Generating
  | Error_not_found path
  | Rendered_SVG_to path
  | Generated string nat nat
  | Generated_KB string nat nat nat
  | Cleaned_up
  | All_generated
  | Generated_files
  | Generated_files_in_public
  | File_KB string nat
  | Listed string nat nat
  | Error_exn exn

datatype call =
    Mkdir path
  | Exists path
  | Svg2png path path nat nat
  | Open path
  | Draw_sparkle_star nat
  | Resize "nat \<times> nat"
  | Save path encoding
  | Unlink path
  | Stat path

datatype event = Print msg | Traceback exn | Call call

record 'px state =
  fs :: "'px filesystem"
  log :: "event list"

definition emit :: "event \<Rightarrow> 'px state \<Rightarrow> 'px state" where
  "emit ev s = s\<lparr>log := log s @ [ev]\<rparr>"

text \<open>
  What the scripts do not define themselves: whether the imports succeed, the path of the
  running script, and the image libraries. Every library routine is a function of its
  arguments that may raise; nothing more is assumed about it.
\<close>

record 'px env =
  has_PIL :: bool
  has_cairosvg :: bool
  script_file :: path
  rasterize :: "'px content \<Rightarrow> nat \<Rightarrow> nat \<Rightarrow> exn + 'px"
  blank :: "nat \<Rightarrow> nat \<Rightarrow> exn + 'px"
  polygon :: "'px \<Rightarrow> (real \<times> real) list \<Rightarrow> nat \<times> nat \<times> nat \<Rightarrow> nat \<times> nat \<times> nat \<Rightarrow> exn + 'px"
  ellipse :: "'px \<Rightarrow> (real \<times> real) \<times> (real \<times> real) \<Rightarrow> nat \<times> nat \<times> nat \<Rightarrow> exn + 'px"
  lanczos :: "'px image \<Rightarrow> nat \<times> nat \<Rightarrow> exn + 'px"
  st_size :: "'px node \<Rightarrow> nat"

text \<open>A process starts on a filesystem, having done nothing yet.\<close>

definition start :: "'px filesystem \<Rightarrow> 'px state" where
  "start f = \<lparr>fs = f, log = []\<rparr>"

text \<open>\<^verbatim>\<open>exit(code)\<close>, and an exception nobody catches: traceback, exit status 1.\<close>

definition exit :: "nat \<Rightarrow> 'px state \<Rightarrow> nat \<times> 'px state" where
  "exit code s = (code, s)"

definition uncaught :: "exn \<Rightarrow> 'px state \<Rightarrow> nat \<times> 'px state" where
  "uncaught e s = (1, emit (Traceback e) s)"

definition mkdir :: "path \<Rightarrow> 'px state \<Rightarrow> exn option \<times> 'px state" where
  "mkdir p s =
     (let s1 = emit (Call (Mkdir p)) s in
      case mkdir_parents p True (fs s1) of
        Inl e \<Rightarrow> (Some e, s1)
      | Inr f \<Rightarrow> (None, s1\<lparr>fs := f\<rparr>))"

definition path_exists :: "path \<Rightarrow> 'px state \<Rightarrow> bool \<times> 'px state" where
  "path_exists p s = (exists (fs s) p, emit (Call (Exists p)) s)"

definition stat :: "'px env \<Rightarrow> path \<Rightarrow> 'px state \<Rightarrow> (exn + nat) \<times> 'px state" where
  "stat E p s =
     (let s1 = emit (Call (Stat p)) s in
      if p = [] then (Inr (st_size E Dir), s1)
      else case fs s1 p of
        None \<Rightarrow> (Inl FileNotFoundError, s1)
      | Some n \<Rightarrow> (Inr (st_size E n), s1))"

definition unlink :: "path \<Rightarrow> 'px state \<Rightarrow> exn option \<times> 'px state" where
  "unlink p s =
     (let s1 = emit (Call (Unlink p)) s in
      case os_unlink p (fs s1) of
        Inl e \<Rightarrow> (Some e, s1)
      | Inr f \<Rightarrow> (None, s1\<lparr>fs := f\<rparr>))"

text \<open>
  \<^verbatim>\<open>cairosvg.svg2png(url=..., write_to=..., output_width=w, output_height=h)\<close>: read the
  source, render it at the requested size, write the PNG.
\<close>

definition svg2png :: "'px env \<Rightarrow> path \<Rightarrow> path \<Rightarrow> nat \<Rightarrow> nat \<Rightarrow> 'px state \<Rightarrow> exn option \<times> 'px state" where
  "svg2png E url write_to w h s =
     (let s1 = emit (Call (Svg2png url write_to w h)) s in
      case read_file url (fs s1) of
        Inl e \<Rightarrow> (Some e, s1)
      | Inr src \<Rightarrow>
          (case rasterize E src w h of
             Inl e \<Rightarrow> (Some e, s1)
           | Inr px \<Rightarrow>
               (case write_file write_to (Img (PNG False) (Image w h px)) (fs s1) of
                  Inl e \<Rightarrow> (Some e, s1)
                | Inr f \<Rightarrow> (None, s1\<lparr>fs := f\<rparr>))))"

definition Image_open :: "path \<Rightarrow> 'px state \<Rightarrow> (exn + 'px image) \<times> 'px state" where
  "Image_open p s =
     (let s1 = emit (Call (Open p)) s in
      case read_file p (fs s1) of
        Inl e \<Rightarrow> (Inl e, s1)
      | Inr (Raw b) \<Rightarrow> (Inl UnidentifiedImageError, s1)
      | Inr (Img enc im) \<Rightarrow> (Inr im, s1))"

text \<open>
  \<^verbatim>\<open>im.resize((w, h), Image.Resampling.LANCZOS)\<close>: a new image of exactly the requested
  size, its pixels those of the library's Lanczos filter.
\<close>

definition resize :: "'px env \<Rightarrow> 'px image \<Rightarrow> nat \<times> nat \<Rightarrow> 'px state \<Rightarrow> (exn + 'px image) \<times> 'px state" where
  "resize E im sz s =
     (let s1 = emit (Call (Resize sz)) s in
      case lanczos E im sz of
        Inl e \<Rightarrow> (Inl e, s1)
      | Inr px \<Rightarrow> (Inr (Image (fst sz) (snd sz) px), s1))"

definition save :: "'px image \<Rightarrow> path \<Rightarrow> encoding \<Rightarrow> 'px state \<Rightarrow> exn option \<times> 'px state" where
  "save im p enc s =
     (let s1 = emit (Call (Save p enc)) s in
      case write_file p (Img enc im) (fs s1) of
        Inl e \<Rightarrow> (Some e, s1)
      | Inr f \<Rightarrow> (None, s1\<lparr>fs := f\<rparr>))"

section \<open>The vector variant: \<^verbatim>\<open>scripts/generate-icons.py\<close>\<close>

definition ROOT :: "'px env \<Rightarrow> path" where
  "ROOT E = parent (parent (script_file E))"

definition SVG_SOURCE :: "'px env \<Rightarrow> path" where
  "SVG_SOURCE E = joinpath (joinpath (ROOT E) ''public'') ''favicon.svg''"

definition PUBLIC_DIR :: "'px env \<Rightarrow> path" where
  "PUBLIC_DIR E = joinpath (ROOT E) ''public''"

definition ICONS_DIR :: "'px env \<Rightarrow> path" where
  "ICONS_DIR E = joinpath (joinpath (ROOT E) ''public'') ''icons''"

text \<open>The dictionary \<^verbatim>\<open>SIZES\<close>, in insertion order, which is the order of the loop.\<close>

definition SIZES :: "(string \<times> nat \<times> nat) list" where
  "SIZES =
     [(''favicon.ico'', 64, 64),
      (''icons/apple-touch-icon.png'', 180, 180),
      (''icons/icon-192x192.png'', 192, 192),
      (''icons/icon-512x512.png'', 512, 512)]"

definition temp_png :: "'px env \<Rightarrow> path" where
  "temp_png E = joinpath (PUBLIC_DIR E) ''temp_icon.png''"

text \<open>The loop \<^verbatim>\<open>for filename, (width, height) in SIZES.items()\<close>.\<close>

fun generate_sizes ::
  "'px env \<Rightarrow> 'px image \<Rightarrow> (string \<times> nat \<times> nat) list \<Rightarrow> 'px state \<Rightarrow> exn option \<times> 'px state" where
  "generate_sizes E base_img [] s = (None, s)"
| "generate_sizes E base_img ((filename, width, height) # rest) s =
     (let output_path = joinpath (PUBLIC_DIR E) filename in
      case resize E base_img (width, height) s of
        (Inl e, s1) \<Rightarrow> (Some e, s1)
      | (Inr resized, s1) \<Rightarrow>
          (case (if endswith filename ''.ico''
                 then save resized output_path (ICO (Some [(width, height)])) s1
                 else save resized output_path (PNG True) s1) of
             (Some e, s2) \<Rightarrow> (Some e, s2)
           | (None, s2) \<Rightarrow>
               generate_sizes E base_img rest (emit (Print (Generated filename width height)) s2)))"

text \<open>The closing loop \<^verbatim>\<open>for filename in SIZES.keys()\<close>, which prints the size of each file.\<close>

fun list_generated :: "'px env \<Rightarrow> string list \<Rightarrow> 'px state \<Rightarrow> exn option \<times> 'px state" where
  "list_generated E [] s = (None, s)"
| "list_generated E (filename # rest) s =
     (let p = joinpath (PUBLIC_DIR E) filename in
      case path_exists p s of
        (False, s1) \<Rightarrow> list_generated E rest s1
      | (True, s1) \<Rightarrow>
          (case stat E p s1 of
             (Inl e, s2) \<Rightarrow> (Some e, s2)
           | (Inr n, s2) \<Rightarrow> list_generated E rest (emit (Print (File_KB filename n)) s2)))"

text \<open>The body of the \<^verbatim>\<open>try\<close> block; \<open>Some e\<close> is the exception that left it.\<close>

definition try_icons :: "'px env \<Rightarrow> 'px state \<Rightarrow> exn option \<times> 'px state" where
  "try_icons E s =
     (case svg2png E (SVG_SOURCE E) (temp_png E) 512 512 s of
        (Some e, s1) \<Rightarrow> (Some e, s1)
      | (None, s1) \<Rightarrow>
          (case Image_open (temp_png E) (emit (Print (Rendered_SVG_to (temp_png E))) s1) of
             (Inl e, s2) \<Rightarrow> (Some e, s2)
           | (Inr base_img, s2) \<Rightarrow>
               (case generate_sizes E base_img SIZES s2 of
                  (Some e, s3) \<Rightarrow> (Some e, s3)
                | (None, s3) \<Rightarrow>
                    (case unlink (temp_png E) s3 of
                       (Some e, s4) \<Rightarrow> (Some e, s4)
                     | (None, s4) \<Rightarrow>
                         list_generated E (map fst SIZES)
                           (emit (Print Generated_files)
                             (emit (Print All_generated)
                               (emit (Print Cleaned_up) s4)))))))"

text \<open>The whole script, run on the filesystem \<open>f0\<close>: exit status and final state.\<close>

definition generate_icons :: "'px env \<Rightarrow> 'px filesystem \<Rightarrow> nat \<times> 'px state" where
  "generate_icons E f0 =
     (if \<not> (has_PIL E \<and> has_cairosvg E) then
        exit 1
          (emit (Print Pip_install_pillow_cairosvg) (emit (Print Missing_dependencies) (start f0)))
      else
        case mkdir (ICONS_DIR E) (start f0) of
          (Some e, s1) \<Rightarrow> uncaught e s1
        | (None, s1) \<Rightarrow>
            (case path_exists (SVG_SOURCE E) (emit (Print Generating_from_SVG) s1) of
               (False, s2) \<Rightarrow> exit 1 (emit (Print (Error_not_found (SVG_SOURCE E))) s2)
             | (True, s2) \<Rightarrow>
                 (case try_icons E s2 of
                    (Some e, s3) \<Rightarrow> exit 1 (emit (Print (Error_exn e)) s3)
                  | (None, s3) \<Rightarrow> (0, s3))))"

section \<open>The procedural variant: \<^verbatim>\<open>scripts/generate-simple-icons.py\<close>\<close>

subsection \<open>Python's \<^verbatim>\<open>int(n * c)\<close> for an integer \<^verbatim>\<open>n\<close> and a float literal \<^verbatim>\<open>c\<close>\<close>

text \<open>
  A double is a pair \<open>(m, k)\<close> standing for \<open>m / 2^k\<close>; the literals of the script are
  the doubles nearest to their decimal text. The product of an integer and a double is
  the exact product rounded to 53 significant bits, ties to even, and \<^verbatim>\<open>int\<close> truncates.
  (Python raises OverflowError from \<open>2^1024\<close> on, far above any image size.)
\<close>

type_synonym double = "nat \<times> nat"

definition d0_35 :: double where "d0_35 = (3152519739159347, 53)"
definition d0_5 :: double where "d0_5 = (1, 1)"
definition d0_12 :: double where "d0_12 = (1080863910568919, 53)"
definition d0_25 :: double where "d0_25 = (1, 2)"
definition d0_06 :: double where "d0_06 = (1080863910568919, 54)"

fun bit_length :: "nat \<Rightarrow> nat" where
  "bit_length n = (if n = 0 then 0 else Suc (bit_length (n div 2)))"

declare bit_length.simps [simp del]

definition round53 :: "nat \<Rightarrow> nat" where
  "round53 n =
     (let b = bit_length n in
      if b \<le> 53 then n
      else
        let sh = b - 53; q = n div 2 ^ sh; r = n mod 2 ^ sh; half = 2 ^ (sh - 1) in
        (if half < r \<or> (r = half \<and> odd q) then q + 1 else q) * 2 ^ sh)"

definition int_mul :: "nat \<Rightarrow> double \<Rightarrow> nat" where
  "int_mul n c = round53 (round53 n * fst c) div 2 ^ snd c"

subsection \<open>\<^verbatim>\<open>draw_sparkle_star\<close>\<close>

definition center :: "nat \<Rightarrow> nat" where
  "center sz = sz div 2"

definition main_color :: "nat \<times> nat \<times> nat" where "main_color = (16, 185, 129)"
definition gold_color :: "nat \<times> nat \<times> nat" where "gold_color = (251, 191, 36)"
definition white :: "nat \<times> nat \<times> nat" where "white = (255, 255, 255)"

definition star_radius :: "nat \<Rightarrow> nat" where
  "star_radius sz = int_mul sz d0_35"

text \<open>
  The body of \<^verbatim>\<open>for i in range(8)\<close>. The radius is an integer; the coordinates are
  floats in the script and real numbers here (\<^verbatim>\<open>math.cos\<close>, \<^verbatim>\<open>math.sin\<close> and
  \<^verbatim>\<open>math.pi\<close> are taken as the real functions and the real constant).
\<close>

definition point_radius :: "nat \<Rightarrow> nat \<Rightarrow> nat" where
  "point_radius sz i =
     (let is_main_point = (i mod 2 = 0) in
      if is_main_point then star_radius sz else int_mul (star_radius sz) d0_5)"

definition point_angle :: "nat \<Rightarrow> real" where
  "point_angle i = real_of_int (int i * 45 - 90) * (pi / 180)"

definition star_point :: "nat \<Rightarrow> nat \<Rightarrow> real \<times> real" where
  "star_point sz i =
     (let angle = point_angle i;
          radius = point_radius sz i;
          x = real (center sz) + real radius * cos angle;
          y = real (center sz) + real radius * sin angle
      in (x, y))"

definition points :: "nat \<Rightarrow> (real \<times> real) list" where
  "points sz = map (star_point sz) [0..<8]"

definition highlight_r :: "nat \<Rightarrow> nat" where
  "highlight_r sz = int_mul sz d0_12"

definition sparkle_radius :: "nat \<Rightarrow> nat" where
  "sparkle_radius sz = int_mul sz d0_25"

definition dot_size :: "nat \<Rightarrow> nat" where
  "dot_size sz = int_mul sz d0_06"

text \<open>The loop \<^verbatim>\<open>for angle in [45, 135, 225, 315]\<close>, drawing one gold dot per angle.\<close>

fun sparkle_dots :: "'px env \<Rightarrow> nat \<Rightarrow> nat list \<Rightarrow> 'px \<Rightarrow> exn + 'px" where
  "sparkle_dots E sz [] px = Inr px"
| "sparkle_dots E sz (angle # rest) px =
     (let rad = real angle * (pi / 180);
          x = real (center sz) + real (sparkle_radius sz) * cos rad;
          y = real (center sz) + real (sparkle_radius sz) * sin rad
      in case ellipse E px
                ((x - real (dot_size sz), y - real (dot_size sz)),
                 (x + real (dot_size sz), y + real (dot_size sz))) gold_color of
           Inl e \<Rightarrow> Inl e
         | Inr px' \<Rightarrow> sparkle_dots E sz rest px')"

definition draw_sparkle_star ::
  "'px env \<Rightarrow> nat \<Rightarrow> 'px image option \<Rightarrow> 'px state \<Rightarrow> (exn + 'px image) \<times> 'px state" where
  "draw_sparkle_star E sz img s =
     (let s1 = emit (Call (Draw_sparkle_star sz)) s in
      case (case img of
              None \<Rightarrow> (case blank E sz sz of
                          Inl e \<Rightarrow> Inl e
                        | Inr px \<Rightarrow> Inr (Image sz sz px))
            | Some im \<Rightarrow> Inr im) of
        Inl e \<Rightarrow> (Inl e, s1)
      | Inr im \<Rightarrow>
          (case polygon E (pixels im) (points sz) main_color main_color of
             Inl e \<Rightarrow> (Inl e, s1)
           | Inr px1 \<Rightarrow>
               (case ellipse E px1
                       ((real (center sz) - real (highlight_r sz),
                         real (center sz) - real (highlight_r sz)),
                        (real (center sz) + real (highlight_r sz),
                         real (center sz) + real (highlight_r sz))) white of
                  Inl e \<Rightarrow> (Inl e, s1)
                | Inr px2 \<Rightarrow>
                    (case sparkle_dots E sz [45, 135, 225, 315] px2 of
                       Inl e \<Rightarrow> (Inl e, s1)
                     | Inr px3 \<Rightarrow> (Inr (Image (im_width im) (im_height im) px3), s1)))))"

subsection \<open>The script\<close>

definition ROOT_simple :: "'px env \<Rightarrow> path" where
  "ROOT_simple E = parent (script_file E)"

definition PUBLIC_DIR_simple :: "'px env \<Rightarrow> path" where
  "PUBLIC_DIR_simple E = joinpath (ROOT_simple E) ''public''"

definition ICONS_DIR_simple :: "'px env \<Rightarrow> path" where
  "ICONS_DIR_simple E = joinpath (joinpath (ROOT_simple E) ''public'') ''icons''"

definition base_size :: nat where
  "base_size = 512"

definition sizes :: "(string \<times> nat) list" where
  "sizes =
     [(''favicon.ico'', 64),
      (''icons/icon-192x192.png'', 192),
      (''icons/apple-touch-icon.png'', 180)]"

text \<open>The loop \<^verbatim>\<open>for filename, size in sizes.items()\<close>.\<close>

fun generate_other_sizes ::
  "'px env \<Rightarrow> 'px image \<Rightarrow> (string \<times> nat) list \<Rightarrow> 'px state \<Rightarrow> exn option \<times> 'px state" where
  "generate_other_sizes E base_image [] s = (None, s)"
| "generate_other_sizes E base_image ((filename, sz) # rest) s =
     (case resize E base_image (sz, sz) s of
        (Inl e, s1) \<Rightarrow> (Some e, s1)
      | (Inr resized, s1) \<Rightarrow>
          (let output_path = joinpath (PUBLIC_DIR_simple E) filename in
           case (if endswith filename ''.ico''
                 then save resized output_path (ICO None) s1
                 else save resized output_path (PNG False) s1) of
             (Some e, s2) \<Rightarrow> (Some e, s2)
           | (None, s2) \<Rightarrow>
               (case stat E output_path s2 of
                  (Inl e, s3) \<Rightarrow> (Some e, s3)
                | (Inr file_size, s3) \<Rightarrow>
                    generate_other_sizes E base_image rest
                      (emit (Print (Generated_KB filename sz sz file_size)) s3))))"

definition try_simple :: "'px env \<Rightarrow> 'px state \<Rightarrow> exn option \<times> 'px state" where
  "try_simple E s =
     (case draw_sparkle_star E base_size None s of
        (Inl e, s1) \<Rightarrow> (Some e, s1)
      | (Inr base_image, s1) \<Rightarrow>
          (case save base_image
                  (joinpath (joinpath (PUBLIC_DIR_simple E) ''icons'') ''icon-512x512.png'')
                  (PNG False) s1 of
             (Some e, s2) \<Rightarrow> (Some e, s2)
           | (None, s2) \<Rightarrow>
               (case generate_other_sizes E base_image sizes
                       (emit (Print (Generated ''icons/icon-512x512.png'' 512 512)) s2) of
                  (Some e, s3) \<Rightarrow> (Some e, s3)
                | (None, s3) \<Rightarrow>
                    (None,
                     emit (Print (Listed ''icons/icon-512x512.png'' 512 512))
                       (emit (Print (Listed ''icons/apple-touch-icon.png'' 180 180))
                         (emit (Print (Listed ''icons/icon-192x192.png'' 192 192))
                           (emit (Print (Listed ''favicon.ico'' 64 64))
                             (emit (Print Generated_files_in_public)
                               (emit (Print All_generated) s3)))))))))"

text \<open>
  The whole script. The import of PIL is not guarded: when it fails, the ImportError is
  an uncaught exception.
\<close>

definition generate_simple_icons :: "'px env \<Rightarrow> 'px filesystem \<Rightarrow> nat \<times> 'px state" where
  "generate_simple_icons E f0 =
     (if \<not> has_PIL E then uncaught ImportError (start f0)
      else
        case mkdir (ICONS_DIR_simple E) (start f0) of
          (Some e, s1) \<Rightarrow> uncaught e s1
        | (None, s1) \<Rightarrow>
            (case try_simple E (emit (Print Generating) s1) of
               (Some e, s2) \<Rightarrow> exit 1 (emit (Traceback e) (emit (Print (Error_exn e)) s2))
             | (None, s2) \<Rightarrow> (0, s2)))"

section \<open>Notions used in the statements and proofs\<close>

definition same_dirs :: "'px filesystem \<Rightarrow> 'px filesystem \<Rightarrow> bool" where
  "same_dirs f g = (\<forall>p. is_dir f p = is_dir g p)"

definition entry_path :: "'px env \<Rightarrow> string \<times> nat \<times> nat \<Rightarrow> path" where
  "entry_path E e = joinpath (PUBLIC_DIR E) (fst e)"

definition entry_encoding :: "string \<times> nat \<times> nat \<Rightarrow> encoding" where
  "entry_encoding e =
     (if endswith (fst e) ''.ico'' then ICO (Some [(fst (snd e), snd (snd e))]) else PNG True)"

definition entry_events :: "'px env \<Rightarrow> string \<times> nat \<times> nat \<Rightarrow> event list" where
  "entry_events E e =
     [Call (Resize (snd e)), Call (Save (entry_path E e) (entry_encoding e)),
      Print (Generated (fst e) (fst (snd e)) (snd (snd e)))]"

definition listing_events :: "'px env \<Rightarrow> 'px filesystem \<Rightarrow> string \<Rightarrow> event list" where
  "listing_events E f n =
     (let p = joinpath (PUBLIC_DIR E) n in
      if exists f p
      then [Call (Exists p), Call (Stat p),
            Print (File_KB n (st_size E (if p = [] then Dir else the (f p))))]
      else [Call (Exists p)])"

abbreviation rendered :: "'px env \<Rightarrow> 'px \<Rightarrow> 'px node" where
  "rendered E px0 \<equiv> File (Img (PNG False) (Image 512 512 px0))"

abbreviation before_try :: "'px env \<Rightarrow> event list" where
  "before_try E \<equiv>
     [Call (Mkdir (ICONS_DIR E)), Print Generating_from_SVG, Call (Exists (SVG_SOURCE E))]"

definition other_path :: "'px env \<Rightarrow> string \<times> nat \<Rightarrow> path" where
  "other_path E e = joinpath (PUBLIC_DIR_simple E) (fst e)"

definition other_encoding :: "string \<times> nat \<Rightarrow> encoding" where
  "other_encoding e = (if endswith (fst e) ''.ico'' then ICO None else PNG False)"

definition other_events :: "'px env \<Rightarrow> 'px image \<Rightarrow> string \<times> nat \<Rightarrow> event list" where
  "other_events E base_image e =
     (case lanczos E base_image (snd e, snd e) of
        Inl x \<Rightarrow> [Call (Resize (snd e, snd e))]
      | Inr px \<Rightarrow>
          [Call (Resize (snd e, snd e)), Call (Save (other_path E e) (other_encoding e)),
           Call (Stat (other_path E e)),
           Print (Generated_KB (fst e) (snd e) (snd e)
                    (st_size E (File (Img (other_encoding e) (Image (snd e) (snd e) px)))))])"

definition icon512 :: "'px env \<Rightarrow> path" where
  "icon512 E = joinpath (joinpath (PUBLIC_DIR_simple E) ''icons'') ''icon-512x512.png''"

abbreviation closing_lines :: "event list" where
  "closing_lines \<equiv>
     [Print All_generated, Print Generated_files_in_public, Print (Listed ''favicon.ico'' 64 64),
      Print (Listed ''icons/icon-192x192.png'' 192 192),
      Print (Listed ''icons/apple-touch-icon.png'' 180 180),
      Print (Listed ''icons/icon-512x512.png'' 512 512)]"

abbreviation before_try_simple :: "'px env \<Rightarrow> event list" where
  "before_try_simple E \<equiv> [Call (Mkdir (ICONS_DIR_simple E)), Print Generating]"

fun calls :: "event list \<Rightarrow> call list" where
  "calls [] = []"
| "calls (Call c # evs) = c # calls evs"
| "calls (ev # evs) = calls evs"

fun saved_paths :: "event list \<Rightarrow> path list" where
  "saved_paths [] = []"
| "saved_paths (Call (Save p enc) # evs) = p # saved_paths evs"
| "saved_paths (ev # evs) = saved_paths evs"

text \<open>What a successful run of the vector variant went through.\<close>

abbreviation after_open :: "'px env \<Rightarrow> event list" where
  "after_open E \<equiv>
     before_try E @
     [Call (Svg2png (SVG_SOURCE E) (temp_png E) 512 512),
      Print (Rendered_SVG_to (temp_png E)), Call (Open (temp_png E))]"

abbreviation after_sizes :: "'px env \<Rightarrow> event list" where
  "after_sizes E \<equiv>
     [Call (Unlink (temp_png E)), Print Cleaned_up, Print All_generated, Print Generated_files]"

abbreviation after_512 :: "'px env \<Rightarrow> event list" where
  "after_512 E \<equiv>
     before_try_simple E @
     [Call (Draw_sparkle_star base_size), Call (Save (icon512 E) (PNG False)),
      Print (Generated ''icons/icon-512x512.png'' 512 512)]"

definition demo_env :: "nat env" where
  "demo_env =
     \<lparr>has_PIL = True, has_cairosvg = True,
      script_file = [''repo'', ''scripts'', ''script.py''],
      rasterize = (\<lambda>src w h. Inr 7),
      blank = (\<lambda>w h. Inr 0),
      polygon = (\<lambda>px pts fill outline. Inr (px + 1)),
      ellipse = (\<lambda>px box fill. Inr (px + 1)),
      lanczos = (\<lambda>im sz. Inr (if (im_width im, im_height im) = sz then pixels im
                                else pixels im + fst sz)),
      st_size = (\<lambda>n. 1024)\<rparr>"

definition demo_fs :: "nat filesystem" where
  "demo_fs =
     [[''repo''] \<mapsto> Dir, [''repo'', ''scripts''] \<mapsto> Dir, [''repo'', ''public''] \<mapsto> Dir,
      [''repo'', ''public'', ''favicon.svg''] \<mapsto> File (Raw ''<svg/>'')]"

definition encoding_at :: "'px filesystem \<Rightarrow> path \<Rightarrow> encoding option" where
  "encoding_at f p = (case f p of Some (File (Img enc im)) \<Rightarrow> Some enc | _ \<Rightarrow> None)"

fun no_file_rev :: "'px filesystem \<Rightarrow> string list \<Rightarrow> bool" where
  "no_file_rev f [] = True"
| "no_file_rev f (c # rp) =
     ((case f (rev (c # rp)) of Some (File x) \<Rightarrow> False | _ \<Rightarrow> True) \<and> no_file_rev f rp)"

definition no_file_above :: "'px filesystem \<Rightarrow> path \<Rightarrow> bool" where
  "no_file_above f p = no_file_rev f (rev p)"

definition bare_fs :: "nat filesystem" where
  "bare_fs = [[''repo''] \<mapsto> Dir, [''repo'', ''scripts''] \<mapsto> Dir]"

definition failing_env :: "nat env" where
  "failing_env =
     demo_env\<lparr>lanczos := (\<lambda>im sz. if sz = (180, 180) then Inl (LibraryError ''resize'')
                                  else Inr (pixels im + fst sz))\<rparr>"

section \<open>Geometry of the star\<close>

lemma points_nth: "i < 8 \<Longrightarrow> points sz ! i = star_point sz i"
  by (simp add: points_def)

lemma length_points: "length (points sz) = 8"
  by (simp add: points_def)

lemma star_point_distance:
  "sqrt ((fst (star_point sz i) - real (center sz))\<^sup>2 +
         (snd (star_point sz i) - real (center sz))\<^sup>2) = real (point_radius sz i)"
proof -
  let ?r = "real (point_radius sz i)"
  let ?a = "point_angle i"
  have "(?r * cos ?a)\<^sup>2 + (?r * sin ?a)\<^sup>2 = ?r\<^sup>2 * ((cos ?a)\<^sup>2 + (sin ?a)\<^sup>2)"
    unfolding power_mult_distrib distrib_left ..
  then have "(?r * cos ?a)\<^sup>2 + (?r * sin ?a)\<^sup>2 = ?r\<^sup>2"
    by simp
  then have "sqrt ((?r * cos ?a)\<^sup>2 + (?r * sin ?a)\<^sup>2) = ?r"
    by (simp only: real_sqrt_abs abs_of_nat)
  then show ?thesis
    by (simp add: star_point_def Let_def)
qed

lemma bit_length_eq: "n < 2 ^ k \<Longrightarrow> 2 ^ k \<le> 2 * n \<Longrightarrow> bit_length n = k"
proof (induction k arbitrary: n)
  case 0
  then show ?case by simp
next
  case (Suc k)
  then have pos: "n \<noteq> 0" by auto
  show ?case
  proof (cases "k = 0")
    case True
    with Suc.prems have "n = 1" by simp
    then show ?thesis using True by (simp add: bit_length.simps)
  next
    case False
    then obtain j where j: "k = Suc j" by (cases k) auto
    from Suc.prems have "n div 2 < 2 ^ k" by simp
    moreover from Suc.prems j have "2 ^ k \<le> 2 * (n div 2)" by simp
    ultimately have "bit_length (n div 2) = k" by (rule Suc.IH)
    with pos show ?thesis by (subst bit_length.simps) simp
  qed
qed

text \<open>\<^verbatim>\<open>int(512 * 0.35)\<close> is 179, and \<^verbatim>\<open>int(180 * 0.35)\<close> is 62 (the product is 62.99999999999999).\<close>

lemma star_radius_512: "star_radius 512 = 179"
proof -
  have b1: "bit_length 512 = 10" by (rule bit_length_eq) simp_all
  have b2: "bit_length 1614090106449585664 = 61" by (rule bit_length_eq) simp_all
  show ?thesis
    by (simp add: star_radius_def int_mul_def round53_def d0_35_def Let_def b1 b2)
qed

lemma star_radius_180: "star_radius 180 = 62"
proof -
  have b1: "bit_length 180 = 8" by (rule bit_length_eq) simp_all
  have b2: "bit_length 567453553048682460 = 59" by (rule bit_length_eq) simp_all
  show ?thesis
    by (simp add: star_radius_def int_mul_def round53_def d0_35_def Let_def b1 b2)
qed

text \<open>
  Claim C2, as stated, at the canvas size 512 the script uses: the first vertex of the
  star is 179 pixels away from the centre \<open>(256, 256)\<close>, not \<open>0.35 * 512 = 179.2\<close>.
\<close>

theorem star_vertex_distance_counterexample:
  "sqrt ((fst (points 512 ! 0) - real (center 512))\<^sup>2 +
         (snd (points 512 ! 0) - real (center 512))\<^sup>2) = 179 \<and>
   sqrt ((fst (points 512 ! 0) - real (center 512))\<^sup>2 +
         (snd (points 512 ! 0) - real (center 512))\<^sup>2) \<noteq> 0.35 * 512"
  by (simp add: points_nth star_point_distance point_radius_def star_radius_512)

text \<open>
  Claim C2, amended: for every canvas size \<open>sz\<close>, the polygon has 8 vertices; vertex \<open>i\<close>
  lies at the angle \<open>i * 45 - 90\<close> degrees around the centre \<open>(sz div 2, sz div 2)\<close>, at
  the distance \<^verbatim>\<open>int(sz * 0.35)\<close> when \<open>i\<close> is even and \<^verbatim>\<open>int(int(sz * 0.35) * 0.5)\<close>
  when \<open>i\<close> is odd: both radii are truncated to integers.
\<close>

theorem star_vertices_truncated_radii:
  "length (points sz) = 8 \<and>
   (\<forall>i<8.
      fst (points sz ! i) =
        real (center sz) + real (point_radius sz i) * cos (real_of_int (int i * 45 - 90) * (pi / 180)) \<and>
      snd (points sz ! i) =
        real (center sz) + real (point_radius sz i) * sin (real_of_int (int i * 45 - 90) * (pi / 180)) \<and>
      sqrt ((fst (points sz ! i) - real (center sz))\<^sup>2 +
            (snd (points sz ! i) - real (center sz))\<^sup>2) = real (point_radius sz i) \<and>
      point_radius sz i =
        (if even i then int_mul sz d0_35 else int_mul (int_mul sz d0_35) d0_5))"
proof (intro conjI allI impI)
  show "length (points sz) = 8"
    by (rule length_points)
next
  fix i :: nat
  assume "i < 8"
  then have p: "points sz ! i = star_point sz i"
    by (rule points_nth)
  show "fst (points sz ! i) =
          real (center sz) + real (point_radius sz i) * cos (real_of_int (int i * 45 - 90) * (pi / 180))"
    unfolding p by (simp add: star_point_def point_angle_def Let_def)
  show "snd (points sz ! i) =
          real (center sz) + real (point_radius sz i) * sin (real_of_int (int i * 45 - 90) * (pi / 180))"
    unfolding p by (simp add: star_point_def point_angle_def Let_def)
  show "sqrt ((fst (points sz ! i) - real (center sz))\<^sup>2 +
              (snd (points sz ! i) - real (center sz))\<^sup>2) = real (point_radius sz i)"
    unfolding p by (rule star_point_distance)
  show "point_radius sz i =
          (if even i then int_mul sz d0_35 else int_mul (int_mul sz d0_35) d0_5)"
    by (simp add: point_radius_def star_radius_def Let_def even_iff_mod_2_eq_zero)
qed

theorem star_vertices_truncated_radii_witness:
  "(1::nat) < 8 \<and>
   sqrt ((fst (points 512 ! 1) - real (center 512))\<^sup>2 +
         (snd (points 512 ! 1) - real (center 512))\<^sup>2) = real (point_radius 512 1) \<and>
   point_radius 512 1 = int_mul (int_mul 512 d0_35) d0_5"
proof -
  have h: "(1::nat) < 8" by simp
  note t = star_vertices_truncated_radii [of 512, THEN conjunct2, rule_format, OF h]
  from t [THEN conjunct2, THEN conjunct2] h show ?thesis by simp
qed

section \<open>The filesystem operations and the two scripts\<close>

lemma same_dirs_refl: "same_dirs f f"
  by (simp add: same_dirs_def)

lemma os_mkdir_Inr: "os_mkdir p f = Inr f' \<Longrightarrow> f p = None \<and> p \<noteq> [] \<and> is_dir f (parent p) \<and> f' = f(p \<mapsto> Dir)"
  by (auto simp: os_mkdir_def exists_def split: if_splits)

lemma mkdir1_Inr:
  "mkdir1 p ok f = Inr f' \<Longrightarrow>
     (f p = None \<and> p \<noteq> [] \<and> is_dir f (parent p) \<and> f' = f(p \<mapsto> Dir)) \<or> (is_dir f p \<and> f' = f)"
  by (auto simp: mkdir1_def dest: os_mkdir_Inr split: sum.splits if_splits)

lemma mkdir_rev_Cons_Inr:
  "mkdir_rev (c # rp) ok f = Inr f' \<Longrightarrow>
     (f (rev (c # rp)) = None \<and> f' = f(rev (c # rp) \<mapsto> Dir)) \<or>
     (is_dir f (rev (c # rp)) \<and> f' = f) \<or>
     (\<exists>f1. mkdir_rev rp True f = Inr f1 \<and> mkdir1 (rev (c # rp)) ok f1 = Inr f')"
  by (auto dest: os_mkdir_Inr split: sum.splits if_splits)

lemma mkdir_rev_Nil_Inr: "mkdir_rev [] ok f = Inr f' \<Longrightarrow> f' = f"
  by (auto simp: os_mkdir_def exists_def is_dir_def split: sum.splits if_splits)

lemma mkdir_rev_frame:
  "mkdir_rev rp ok f = Inr f' \<Longrightarrow>
     f' q = f q \<or> (f q = None \<and> f' q = Some Dir \<and> (\<exists>r. rev rp = q @ r))"
proof (induction rp arbitrary: ok f f')
  case Nil
  then have "f' = f" by (rule mkdir_rev_Nil_Inr)
  then show ?case by simp
next
  case (Cons c rp)
  from mkdir_rev_Cons_Inr [OF Cons.prems]
  show ?case
  proof (elim disjE conjE exE)
    assume "f (rev (c # rp)) = None" "f' = f(rev (c # rp) \<mapsto> Dir)"
    then show ?thesis by auto
  next
    assume "f' = f"
    then show ?thesis by simp
  next
    fix f1
    assume a: "mkdir_rev rp True f = Inr f1" and b: "mkdir1 (rev (c # rp)) ok f1 = Inr f'"
    from Cons.IH [OF a]
    have ih: "f1 q = f q \<or> (f q = None \<and> f1 q = Some Dir \<and> (\<exists>r. rev rp = q @ r))" .
    from mkdir1_Inr [OF b] ih show ?thesis
      by (auto split: if_splits)
  qed
qed

lemma mkdir_rev_is_dir: "mkdir_rev rp ok f = Inr f' \<Longrightarrow> is_dir f' (rev rp)"
proof (cases rp)
  case Nil
  then show ?thesis by (simp add: is_dir_def)
next
  case (Cons c rp')
  assume "mkdir_rev rp ok f = Inr f'"
  with Cons have "mkdir_rev (c # rp') ok f = Inr f'" by simp
  from mkdir_rev_Cons_Inr [OF this] show ?thesis
    unfolding Cons by (auto simp: is_dir_def dest!: mkdir1_Inr)
qed

lemma mkdir_rev_succeeds:
  "(\<And>q r c. rev rp = q @ r \<Longrightarrow> f q \<noteq> Some (File c)) \<Longrightarrow> \<exists>f'. mkdir_rev rp True f = Inr f'"
proof (induction rp arbitrary: f)
  case Nil
  then show ?case by (simp add: os_mkdir_def exists_def is_dir_def)
next
  case (Cons c rp)
  let ?p = "rev (c # rp)"
  have nofile: "f ?p \<noteq> Some (File x)" for x
    using Cons.prems [of ?p "[]"] by simp
  have nofile_parent: "f (rev rp) \<noteq> Some (File x)" for x
    using Cons.prems [of "rev rp" "[c]"] by simp
  have "\<exists>f1. mkdir_rev rp True f = Inr f1"
  proof (rule Cons.IH)
    fix q r x assume "rev rp = q @ r"
    then have "rev (c # rp) = q @ (r @ [c])" by simp
    then show "f q \<noteq> Some (File x)" by (rule Cons.prems)
  qed
  then obtain f1 where f1: "mkdir_rev rp True f = Inr f1" ..
  have d1: "is_dir f1 (rev rp)" using f1 by (rule mkdir_rev_is_dir)
  have "f1 ?p \<noteq> Some (File x)" for x
    using mkdir_rev_frame [OF f1, of ?p] nofile by auto
  then have "\<exists>f'. mkdir1 ?p True f1 = Inr f'"
    using d1 by (cases "f1 ?p"; cases "the (f1 ?p)")
      (auto simp: mkdir1_def os_mkdir_def exists_def is_dir_def parent_def)
  with f1 nofile nofile_parent show ?case
    by (cases "f ?p"; cases "the (f ?p)"; cases "f (rev rp)"; cases "the (f (rev rp))")
       (auto simp: os_mkdir_def exists_def is_dir_def parent_def)
qed

lemma mkdir_parents_existing: "is_dir f p \<Longrightarrow> mkdir_parents p True f = Inr f"
  by (cases "rev p") (auto simp: mkdir_parents_def os_mkdir_def exists_def is_dir_def)

lemmas path_defs = SVG_SOURCE_def PUBLIC_DIR_def ICONS_DIR_def temp_png_def
  PUBLIC_DIR_simple_def ICONS_DIR_simple_def joinpath_def parts_def

lemma generate_sizes_Cons_cases:
  assumes "generate_sizes E base_img (e # rest) s = (r, s')"
  obtains
    (resize_failed) x where "lanczos E base_img (snd e) = Inl x" "r = Some x"
      "s' = s\<lparr>log := log s @ [Call (Resize (snd e))]\<rparr>"
  | (save_failed) px x where "lanczos E base_img (snd e) = Inr px" "r = Some x"
      "is_dir (fs s) (entry_path E e) \<or> \<not> is_dir (fs s) (parent (entry_path E e))"
      "s' = s\<lparr>log := log s @ [Call (Resize (snd e)), Call (Save (entry_path E e) (entry_encoding e))]\<rparr>"
  | (saved) px where "lanczos E base_img (snd e) = Inr px"
      "\<not> is_dir (fs s) (entry_path E e)" "is_dir (fs s) (parent (entry_path E e))"
      "generate_sizes E base_img rest
         (s\<lparr>fs := (fs s)(entry_path E e \<mapsto>
                   File (Img (entry_encoding e) (Image (fst (snd e)) (snd (snd e)) px))),
            log := log s @ entry_events E e\<rparr>) = (r, s')"
  using assms
  by (cases e)
     (auto simp: resize_def save_def emit_def write_file_def entry_path_def entry_encoding_def
        entry_events_def Let_def
        split: sum.splits option.splits if_splits prod.splits)

lemma generate_sizes_dirs:
  "generate_sizes E base_img es s = (r, s') \<Longrightarrow> is_dir (fs s') q = is_dir (fs s) q"
proof (induction es arbitrary: s)
  case Nil
  then show ?case by simp
next
  case (Cons e es)
  from Cons.prems show ?case
  proof (cases rule: generate_sizes_Cons_cases)
    case (saved px)
    from Cons.IH [OF saved(4)] saved(2) show ?thesis
      by (auto simp: is_dir_def)
  qed simp_all
qed

lemma generate_sizes_frame:
  "generate_sizes E base_img es s = (r, s') \<Longrightarrow> q \<notin> entry_path E ` set es \<Longrightarrow> fs s' q = fs s q"
proof (induction es arbitrary: s)
  case Nil
  then show ?case by simp
next
  case (Cons e es)
  from Cons.prems(1) show ?case
  proof (cases rule: generate_sizes_Cons_cases)
    case (saved px)
    from Cons.IH [OF saved(4)] Cons.prems(2) show ?thesis
      by auto
  qed simp_all
qed

lemma generate_sizes_log:
  "generate_sizes E base_img es s = (r, s') \<Longrightarrow>
     \<exists>new rest. log s' = log s @ new \<and> concat (map (entry_events E) es) = new @ rest \<and>
       (r = None \<longrightarrow> rest = [])"
proof (induction es arbitrary: s)
  case Nil
  then show ?case by simp
next
  case (Cons e es)
  from Cons.prems(1) show ?case
  proof (cases rule: generate_sizes_Cons_cases)
    case (resize_failed x)
    then show ?thesis by (simp add: entry_events_def)
  next
    case (save_failed px x)
    then show ?thesis by (simp add: entry_events_def)
  next
    case (saved px)
    from Cons.IH [OF saved(4)] obtain new rest where
      "log s' = (log s @ entry_events E e) @ new" "concat (map (entry_events E) es) = new @ rest"
      "r = None \<longrightarrow> rest = []"
      by auto
    then show ?thesis
      by (intro exI [of _ "entry_events E e @ new"] exI [of _ rest]) simp
  qed
qed

lemma generate_sizes_written:
  "generate_sizes E base_img es s = (r, s') \<Longrightarrow> distinct (map (entry_path E) es) \<Longrightarrow>
     \<exists>new. log s' = log s @ new \<and>
       (\<forall>n w h. Print (Generated n w h) \<in> set new \<longrightarrow>
          (n, w, h) \<in> set es \<and>
          (\<exists>px. lanczos E base_img (w, h) = Inr px \<and>
             fs s' (entry_path E (n, w, h)) =
               Some (File (Img (entry_encoding (n, w, h)) (Image w h px)))))"
proof (induction es arbitrary: s)
  case Nil
  then show ?case by simp
next
  case (Cons e es)
  from Cons.prems(1) show ?case
  proof (cases rule: generate_sizes_Cons_cases)
    case (resize_failed x)
    then show ?thesis by simp
  next
    case (save_failed px x)
    then show ?thesis by simp
  next
    case (saved px)
    from Cons.prems(2) have d: "distinct (map (entry_path E) es)" and
      notin: "entry_path E e \<notin> entry_path E ` set es"
      by auto
    from Cons.IH [OF saved(4) d] obtain new where
      new: "log s' = (log s @ entry_events E e) @ new" and
      ih: "\<And>n w h. Print (Generated n w h) \<in> set new \<Longrightarrow>
          (n, w, h) \<in> set es \<and>
          (\<exists>px. lanczos E base_img (w, h) = Inr px \<and>
             fs s' (entry_path E (n, w, h)) =
               Some (File (Img (entry_encoding (n, w, h)) (Image w h px))))"
      by auto
    have here: "fs s' (entry_path E e) =
        Some (File (Img (entry_encoding e) (Image (fst (snd e)) (snd (snd e)) px)))"
      using generate_sizes_frame [OF saved(4) notin] by simp
    show ?thesis
    proof (intro exI [of _ "entry_events E e @ new"] conjI allI impI)
      show "log s' = log s @ entry_events E e @ new" using new by simp
    next
      fix n w h
      assume "Print (Generated n w h) \<in> set (entry_events E e @ new)"
      then consider "e = (n, w, h)" | "Print (Generated n w h) \<in> set new"
        by (cases e) (auto simp: entry_events_def)
      then show "(n, w, h) \<in> set (e # es)"
        using ih by cases auto
    next
      fix n w h
      assume "Print (Generated n w h) \<in> set (entry_events E e @ new)"
      then consider "e = (n, w, h)" | "Print (Generated n w h) \<in> set new"
        by (cases e) (auto simp: entry_events_def)
      then show "\<exists>px. lanczos E base_img (w, h) = Inr px \<and>
             fs s' (entry_path E (n, w, h)) =
               Some (File (Img (entry_encoding (n, w, h)) (Image w h px)))"
      proof cases
        case 1
        with here saved(1) show ?thesis by auto
      next
        case 2
        with ih show ?thesis by blast
      qed
    qed
  qed
qed


lemma list_generated_result:
  "list_generated E names s = (r, s') \<Longrightarrow>
     r = None \<and> s' = s\<lparr>log := log s @ concat (map (listing_events E (fs s)) names)\<rparr>"
proof (induction names arbitrary: s)
  case Nil
  then show ?case by simp
next
  case (Cons n names)
  let ?p = "joinpath (PUBLIC_DIR E) n"
  show ?case
  proof (cases "exists (fs s) ?p")
    case False
    with Cons.prems have "list_generated E names (s\<lparr>log := log s @ [Call (Exists ?p)]\<rparr>) = (r, s')"
      by (simp add: path_exists_def emit_def Let_def)
    from Cons.IH [OF this] False show ?thesis
      by (simp add: listing_events_def Let_def)
  next
    case True
    let ?k = "st_size E (if ?p = [] then Dir else the (fs s ?p))"
    from True Cons.prems
    have "list_generated E names
            (s\<lparr>log := log s @ [Call (Exists ?p), Call (Stat ?p), Print (File_KB n ?k)]\<rparr>) = (r, s')"
      by (auto simp: path_exists_def stat_def emit_def exists_def Let_def split: option.splits)
    from Cons.IH [OF this] True show ?thesis
      by (simp add: listing_events_def Let_def)
  qed
qed

lemma temp_not_entry: "temp_png E \<notin> entry_path E ` set SIZES"
  by (simp add: SIZES_def entry_path_def path_defs)



lemma distinct_entry_paths: "distinct (map (entry_path E) SIZES)"
  by (simp add: SIZES_def entry_path_def path_defs)

lemma try_icons_cases:
  assumes "try_icons E s = (r, s')"
  obtains
    (svg2png_failed) x where "r = Some x"
      "s' = s\<lparr>log := log s @ [Call (Svg2png (SVG_SOURCE E) (temp_png E) 512 512)]\<rparr>"
      "fst (svg2png E (SVG_SOURCE E) (temp_png E) 512 512 s) = Some x"
  | (sizes_failed) src px0 x where
      "read_file (SVG_SOURCE E) (fs s) = Inr src" "rasterize E src 512 512 = Inr px0"
      "\<not> is_dir (fs s) (temp_png E)" "is_dir (fs s) (parent (temp_png E))"
      "generate_sizes E (Image 512 512 px0) SIZES
         (s\<lparr>fs := (fs s)(temp_png E \<mapsto> rendered E px0),
            log := log s @ [Call (Svg2png (SVG_SOURCE E) (temp_png E) 512 512),
                            Print (Rendered_SVG_to (temp_png E)), Call (Open (temp_png E))]\<rparr>)
         = (Some x, s')"
      "r = Some x"
  | (finished) src px0 s3 where
      "read_file (SVG_SOURCE E) (fs s) = Inr src" "rasterize E src 512 512 = Inr px0"
      "\<not> is_dir (fs s) (temp_png E)" "is_dir (fs s) (parent (temp_png E))"
      "generate_sizes E (Image 512 512 px0) SIZES
         (s\<lparr>fs := (fs s)(temp_png E \<mapsto> rendered E px0),
            log := log s @ [Call (Svg2png (SVG_SOURCE E) (temp_png E) 512 512),
                            Print (Rendered_SVG_to (temp_png E)), Call (Open (temp_png E))]\<rparr>)
         = (None, s3)"
      "r = None"
      "s' = s3\<lparr>fs := (fs s3)(temp_png E := None),
               log := log s3 @ [Call (Unlink (temp_png E)), Print Cleaned_up, Print All_generated,
                                Print Generated_files] @
                        concat (map (listing_events E ((fs s3)(temp_png E := None))) (map fst SIZES))\<rparr>"
proof -
  let ?ev1 = "Call (Svg2png (SVG_SOURCE E) (temp_png E) 512 512)"
  obtain r1 s1 where a1: "svg2png E (SVG_SOURCE E) (temp_png E) 512 512 s = (r1, s1)" by force
  show thesis
  proof (cases r1)
    case (Some x)
    with a1 have "s1 = s\<lparr>log := log s @ [?ev1]\<rparr>"
      by (auto simp: svg2png_def emit_def Let_def split: sum.splits)
    with a1 Some assms show thesis
      by (intro svg2png_failed [of x]) (simp_all add: try_icons_def)
  next
    case None
    with a1 obtain src px0 where
      src: "read_file (SVG_SOURCE E) (fs s) = Inr src" and px0: "rasterize E src 512 512 = Inr px0" and
      nd: "\<not> is_dir (fs s) (temp_png E)" and pd: "is_dir (fs s) (parent (temp_png E))" and
      s1: "s1 = s\<lparr>fs := (fs s)(temp_png E \<mapsto> rendered E px0), log := log s @ [?ev1]\<rparr>"
      by (auto simp: svg2png_def emit_def write_file_def Let_def split: sum.splits if_splits)
    let ?s2 = "s\<lparr>fs := (fs s)(temp_png E \<mapsto> rendered E px0),
            log := log s @ [?ev1, Print (Rendered_SVG_to (temp_png E)), Call (Open (temp_png E))]\<rparr>"
    have opened: "Image_open (temp_png E) (emit (Print (Rendered_SVG_to (temp_png E))) s1)
                  = (Inr (Image 512 512 px0), ?s2)"
      using nd by (simp add: s1 Image_open_def emit_def read_file_def is_dir_def Let_def)
    obtain r3 s3 where a3: "generate_sizes E (Image 512 512 px0) SIZES ?s2 = (r3, s3)" by force
    show thesis
    proof (cases r3)
      case (Some x)
      with assms a1 None opened a3 have "r = Some x" "s' = s3"
        by (simp_all add: try_icons_def)
      with a3 Some src px0 nd pd show thesis
        by (intro sizes_failed [of src px0 x]) simp_all
    next
      case None3: None
      have t3: "fs s3 (temp_png E) = Some (rendered E px0)"
        using generate_sizes_frame [OF a3 temp_not_entry] by simp
      have "\<not> is_dir (fs s3) (temp_png E)"
        using generate_sizes_dirs [OF a3, of "temp_png E"] nd by (simp add: is_dir_def)
      with t3 have un: "unlink (temp_png E) s3 =
          (None, s3\<lparr>fs := (fs s3)(temp_png E := None), log := log s3 @ [Call (Unlink (temp_png E))]\<rparr>)"
        by (simp add: unlink_def os_unlink_def emit_def Let_def)
      obtain r5 s5 where a5: "list_generated E (map fst SIZES)
          (emit (Print Generated_files) (emit (Print All_generated) (emit (Print Cleaned_up)
             (s3\<lparr>fs := (fs s3)(temp_png E := None), log := log s3 @ [Call (Unlink (temp_png E))]\<rparr>))))
          = (r5, s5)" by force
      from list_generated_result [OF a5] have r5: "r5 = None" and
        s5: "s5 = s3\<lparr>fs := (fs s3)(temp_png E := None),
               log := log s3 @ [Call (Unlink (temp_png E)), Print Cleaned_up, Print All_generated,
                                Print Generated_files] @
                        concat (map (listing_events E ((fs s3)(temp_png E := None))) (map fst SIZES))\<rparr>"
        by (simp_all add: emit_def)
      from assms a1 None opened a3 None3 un a5 have "r = r5" "s' = s5"
        by (simp_all add: try_icons_def)
      with r5 s5 a3 None3 src px0 nd pd show thesis
        by (intro finished [of src px0 s3]) simp_all
    qed
  qed
qed

lemma generate_icons_cases:
  obtains
    (missing_dependency) "\<not> (has_PIL E \<and> has_cairosvg E)"
      "generate_icons E f0 =
         (1, \<lparr>fs = f0, log = [Print Missing_dependencies, Print Pip_install_pillow_cairosvg]\<rparr>)"
  | (mkdir_failed) x where "has_PIL E" "has_cairosvg E"
      "mkdir_parents (ICONS_DIR E) True f0 = Inl x"
      "generate_icons E f0 = (1, \<lparr>fs = f0, log = [Call (Mkdir (ICONS_DIR E)), Traceback x]\<rparr>)"
  | (no_source) f1 where "has_PIL E" "has_cairosvg E"
      "mkdir_parents (ICONS_DIR E) True f0 = Inr f1" "\<not> exists f1 (SVG_SOURCE E)"
      "generate_icons E f0 =
         (1, \<lparr>fs = f1, log = before_try E @ [Print (Error_not_found (SVG_SOURCE E))]\<rparr>)"
  | (raised) f1 x s3 where "has_PIL E" "has_cairosvg E"
      "mkdir_parents (ICONS_DIR E) True f0 = Inr f1" "exists f1 (SVG_SOURCE E)"
      "try_icons E \<lparr>fs = f1, log = before_try E\<rparr> = (Some x, s3)"
      "generate_icons E f0 = (1, s3\<lparr>log := log s3 @ [Print (Error_exn x)]\<rparr>)"
  | (succeeded) f1 s3 where "has_PIL E" "has_cairosvg E"
      "mkdir_parents (ICONS_DIR E) True f0 = Inr f1" "exists f1 (SVG_SOURCE E)"
      "try_icons E \<lparr>fs = f1, log = before_try E\<rparr> = (None, s3)"
      "generate_icons E f0 = (0, s3)"
proof (cases "has_PIL E \<and> has_cairosvg E")
  case False
  then show thesis
    by (intro missing_dependency) (auto simp: generate_icons_def exit_def emit_def start_def)
next
  case True
  show thesis
  proof (cases "mkdir_parents (ICONS_DIR E) True f0")
    case (Inl x)
    with True show thesis
      by (intro mkdir_failed [of x])
         (auto simp: generate_icons_def mkdir_def uncaught_def emit_def start_def Let_def)
  next
    case (Inr f1)
    show thesis
    proof (cases "exists f1 (SVG_SOURCE E)")
      case False
      with True Inr show thesis
        by (intro no_source [of f1])
           (auto simp: generate_icons_def mkdir_def path_exists_def exit_def emit_def start_def Let_def)
    next
      case ex: True
      obtain r s3 where t: "try_icons E \<lparr>fs = f1, log = before_try E\<rparr> = (r, s3)" by force
      show thesis
      proof (cases r)
        case None
        with True Inr ex t show thesis
          by (intro succeeded [of f1 s3])
             (auto simp: generate_icons_def mkdir_def path_exists_def exit_def emit_def start_def Let_def)
      next
        case (Some x)
        with True Inr ex t show thesis
          by (intro raised [of f1 x s3])
             (auto simp: generate_icons_def mkdir_def path_exists_def exit_def emit_def start_def Let_def)
      qed
    qed
  qed
qed

lemma generate_other_sizes_Cons_cases:
  assumes "generate_other_sizes E base_image (e # rest) s = (r, s')"
  obtains
    (resize_failed) x where "lanczos E base_image (snd e, snd e) = Inl x" "r = Some x"
      "s' = s\<lparr>log := log s @ [Call (Resize (snd e, snd e))]\<rparr>"
  | (save_failed) px x where "lanczos E base_image (snd e, snd e) = Inr px" "r = Some x"
      "is_dir (fs s) (other_path E e) \<or> \<not> is_dir (fs s) (parent (other_path E e))"
      "s' = s\<lparr>log := log s @ [Call (Resize (snd e, snd e)),
                                Call (Save (other_path E e) (other_encoding e))]\<rparr>"
  | (saved) px where "lanczos E base_image (snd e, snd e) = Inr px"
      "\<not> is_dir (fs s) (other_path E e)" "is_dir (fs s) (parent (other_path E e))"
      "generate_other_sizes E base_image rest
         (s\<lparr>fs := (fs s)(other_path E e \<mapsto>
                   File (Img (other_encoding e) (Image (snd e) (snd e) px))),
            log := log s @ other_events E base_image e\<rparr>) = (r, s')"
  using assms
  by (cases e)
     (auto simp: resize_def save_def stat_def emit_def write_file_def other_path_def
        other_encoding_def other_events_def Let_def is_dir_def
        split: sum.splits option.splits if_splits prod.splits)

lemma generate_other_sizes_dirs:
  "generate_other_sizes E base_image es s = (r, s') \<Longrightarrow> is_dir (fs s') q = is_dir (fs s) q"
proof (induction es arbitrary: s)
  case Nil
  then show ?case by simp
next
  case (Cons e es)
  from Cons.prems show ?case
  proof (cases rule: generate_other_sizes_Cons_cases)
    case (saved px)
    from Cons.IH [OF saved(4)] saved(2) show ?thesis
      by (auto simp: is_dir_def)
  qed simp_all
qed

lemma generate_other_sizes_frame:
  "generate_other_sizes E base_image es s = (r, s') \<Longrightarrow> q \<notin> other_path E ` set es \<Longrightarrow>
     fs s' q = fs s q"
proof (induction es arbitrary: s)
  case Nil
  then show ?case by simp
next
  case (Cons e es)
  from Cons.prems(1) show ?case
  proof (cases rule: generate_other_sizes_Cons_cases)
    case (saved px)
    from Cons.IH [OF saved(4)] Cons.prems(2) show ?thesis
      by auto
  qed simp_all
qed

lemma generate_other_sizes_log:
  "generate_other_sizes E base_image es s = (r, s') \<Longrightarrow>
     \<exists>new rest. log s' = log s @ new \<and> concat (map (other_events E base_image) es) = new @ rest \<and>
       (r = None \<longrightarrow> rest = [])"
proof (induction es arbitrary: s)
  case Nil
  then show ?case by simp
next
  case (Cons e es)
  from Cons.prems(1) show ?case
  proof (cases rule: generate_other_sizes_Cons_cases)
    case (resize_failed x)
    then show ?thesis by (simp add: other_events_def)
  next
    case (save_failed px x)
    then show ?thesis by (simp add: other_events_def)
  next
    case (saved px)
    from Cons.IH [OF saved(4)] obtain new rest where
      "log s' = (log s @ other_events E base_image e) @ new"
      "concat (map (other_events E base_image) es) = new @ rest"
      "r = None \<longrightarrow> rest = []"
      by auto
    then show ?thesis
      by (intro exI [of _ "other_events E base_image e @ new"] exI [of _ rest]) simp
  qed
qed

lemma generate_other_sizes_written:
  "generate_other_sizes E base_image es s = (r, s') \<Longrightarrow> distinct (map (other_path E) es) \<Longrightarrow>
     \<exists>new. log s' = log s @ new \<and>
       (\<forall>n w h k. Print (Generated_KB n w h k) \<in> set new \<longrightarrow>
          w = h \<and> (n, w) \<in> set es \<and>
          (\<exists>px. lanczos E base_image (w, w) = Inr px \<and>
             fs s' (other_path E (n, w)) =
               Some (File (Img (other_encoding (n, w)) (Image w w px)))))"
proof (induction es arbitrary: s)
  case Nil
  then show ?case by simp
next
  case (Cons e es)
  from Cons.prems(1) show ?case
  proof (cases rule: generate_other_sizes_Cons_cases)
    case (resize_failed x)
    then show ?thesis by simp
  next
    case (save_failed px x)
    then show ?thesis by simp
  next
    case (saved px)
    from Cons.prems(2) have d: "distinct (map (other_path E) es)" and
      notin: "other_path E e \<notin> other_path E ` set es"
      by auto
    have "\<exists>new. log s' = (log s @ other_events E base_image e) @ new \<and>
       (\<forall>n w h k. Print (Generated_KB n w h k) \<in> set new \<longrightarrow>
          w = h \<and> (n, w) \<in> set es \<and>
          (\<exists>px. lanczos E base_image (w, w) = Inr px \<and>
             fs s' (other_path E (n, w)) =
               Some (File (Img (other_encoding (n, w)) (Image w w px)))))"
      using Cons.IH [OF saved(4) d] by simp
    then obtain new where
      new: "log s' = (log s @ other_events E base_image e) @ new" and
      ih0: "\<forall>n w h k. Print (Generated_KB n w h k) \<in> set new \<longrightarrow>
          w = h \<and> (n, w) \<in> set es \<and>
          (\<exists>px. lanczos E base_image (w, w) = Inr px \<and>
             fs s' (other_path E (n, w)) =
               Some (File (Img (other_encoding (n, w)) (Image w w px))))"
      by blast
    have ih: "w = h \<and> (n, w) \<in> set es \<and>
          (\<exists>px. lanczos E base_image (w, w) = Inr px \<and>
             fs s' (other_path E (n, w)) =
               Some (File (Img (other_encoding (n, w)) (Image w w px))))"
      if "Print (Generated_KB n w h k) \<in> set new" for n w h k
      using ih0 that by blast
    have here: "fs s' (other_path E e) =
        Some (File (Img (other_encoding e) (Image (snd e) (snd e) px)))"
      using generate_other_sizes_frame [OF saved(4) notin] by simp
    have split: "e = (n, w) \<and> w = h \<or> Print (Generated_KB n w h k) \<in> set new"
      if "Print (Generated_KB n w h k) \<in> set (other_events E base_image e @ new)" for n w h k
      using that saved(1) by (cases e) (auto simp: other_events_def)
    show ?thesis
    proof (intro exI [of _ "other_events E base_image e @ new"] conjI allI impI)
      show "log s' = log s @ other_events E base_image e @ new" using new by simp
    next
      fix n w h k
      assume "Print (Generated_KB n w h k) \<in> set (other_events E base_image e @ new)"
      from split [OF this] ih show "w = h" by blast
    next
      fix n w h k
      assume "Print (Generated_KB n w h k) \<in> set (other_events E base_image e @ new)"
      from split [OF this] ih show "(n, w) \<in> set (e # es)" by auto
    next
      fix n w h k
      assume "Print (Generated_KB n w h k) \<in> set (other_events E base_image e @ new)"
      from split [OF this]
      show "\<exists>px. lanczos E base_image (w, w) = Inr px \<and>
             fs s' (other_path E (n, w)) =
               Some (File (Img (other_encoding (n, w)) (Image w w px)))"
      proof
        assume "e = (n, w) \<and> w = h"
        with here saved(1) show ?thesis by auto
      next
        assume "Print (Generated_KB n w h k) \<in> set new"
        with ih show ?thesis by blast
      qed
    qed
  qed
qed


lemma draw_sparkle_star_state:
  "snd (draw_sparkle_star E sz img s) = s\<lparr>log := log s @ [Call (Draw_sparkle_star sz)]\<rparr>"
  by (simp add: draw_sparkle_star_def emit_def Let_def split: sum.splits option.splits)

lemma draw_sparkle_star_pure:
  "fst (draw_sparkle_star E sz img s) = fst (draw_sparkle_star E sz img t)"
  by (simp add: draw_sparkle_star_def Let_def split: sum.splits option.splits)

lemma draw_sparkle_star_size:
  "fst (draw_sparkle_star E sz None s) = Inr im \<Longrightarrow> im_width im = sz \<and> im_height im = sz"
  by (auto simp: draw_sparkle_star_def Let_def split: sum.splits)

lemma try_simple_cases:
  assumes "try_simple E s = (r, s')"
  obtains
    (draw_failed) x where "fst (draw_sparkle_star E base_size None s) = Inl x" "r = Some x"
      "s' = s\<lparr>log := log s @ [Call (Draw_sparkle_star base_size)]\<rparr>"
  | (save_failed) base_image x where "fst (draw_sparkle_star E base_size None s) = Inr base_image"
      "r = Some x"
      "is_dir (fs s) (icon512 E) \<or> \<not> is_dir (fs s) (parent (icon512 E))"
      "s' = s\<lparr>log := log s @ [Call (Draw_sparkle_star base_size),
                                Call (Save (icon512 E) (PNG False))]\<rparr>"
  | (others_failed) base_image x where
      "fst (draw_sparkle_star E base_size None s) = Inr base_image"
      "\<not> is_dir (fs s) (icon512 E)" "is_dir (fs s) (parent (icon512 E))"
      "generate_other_sizes E base_image sizes
         (s\<lparr>fs := (fs s)(icon512 E \<mapsto> File (Img (PNG False) base_image)),
            log := log s @ [Call (Draw_sparkle_star base_size), Call (Save (icon512 E) (PNG False)),
                            Print (Generated ''icons/icon-512x512.png'' 512 512)]\<rparr>) = (Some x, s')"
      "r = Some x"
  | (finished) base_image s3 where
      "fst (draw_sparkle_star E base_size None s) = Inr base_image"
      "\<not> is_dir (fs s) (icon512 E)" "is_dir (fs s) (parent (icon512 E))"
      "generate_other_sizes E base_image sizes
         (s\<lparr>fs := (fs s)(icon512 E \<mapsto> File (Img (PNG False) base_image)),
            log := log s @ [Call (Draw_sparkle_star base_size), Call (Save (icon512 E) (PNG False)),
                            Print (Generated ''icons/icon-512x512.png'' 512 512)]\<rparr>) = (None, s3)"
      "r = None" "s' = s3\<lparr>log := log s3 @ closing_lines\<rparr>"
proof -
  let ?d = "Call (Draw_sparkle_star base_size)"
  obtain r1 s1 where a1: "draw_sparkle_star E base_size None s = (r1, s1)" by force
  then have s1: "s1 = s\<lparr>log := log s @ [?d]\<rparr>" and r1: "fst (draw_sparkle_star E base_size None s) = r1"
    using draw_sparkle_star_state [of E base_size None s] by simp_all
  show thesis
  proof (cases r1)
    case (Inl x)
    with a1 assms have "r = Some x" "s' = s1" by (simp_all add: try_simple_def)
    with s1 r1 Inl show thesis by (intro draw_failed [of x]) simp_all
  next
    case (Inr base_image)
    obtain r2 s2 where a2: "save base_image (icon512 E) (PNG False) s1 = (r2, s2)" by force
    show thesis
    proof (cases r2)
      case (Some x)
      with a2 have "is_dir (fs s) (icon512 E) \<or> \<not> is_dir (fs s) (parent (icon512 E))"
        "s2 = s\<lparr>log := log s @ [?d, Call (Save (icon512 E) (PNG False))]\<rparr>"
        by (auto simp: s1 save_def emit_def write_file_def Let_def split: if_splits)
      moreover from Some a1 a2 Inr assms have "r = Some x" "s' = s2"
        by (simp_all add: try_simple_def icon512_def)
      ultimately show thesis using r1 Inr by (intro save_failed [of base_image x]) simp_all
    next
      case None
      with a2 have nd: "\<not> is_dir (fs s) (icon512 E)" and pd: "is_dir (fs s) (parent (icon512 E))" and
        s2: "s2 = s\<lparr>fs := (fs s)(icon512 E \<mapsto> File (Img (PNG False) base_image)),
                     log := log s @ [?d, Call (Save (icon512 E) (PNG False))]\<rparr>"
        by (auto simp: s1 save_def emit_def write_file_def Let_def split: if_splits)
      let ?s2' = "s\<lparr>fs := (fs s)(icon512 E \<mapsto> File (Img (PNG False) base_image)),
            log := log s @ [?d, Call (Save (icon512 E) (PNG False)),
                            Print (Generated ''icons/icon-512x512.png'' 512 512)]\<rparr>"
      have e2: "emit (Print (Generated ''icons/icon-512x512.png'' 512 512)) s2 = ?s2'"
        by (simp add: s2 emit_def)
      obtain r3 s3 where a3: "generate_other_sizes E base_image sizes ?s2' = (r3, s3)" by force
      show thesis
      proof (cases r3)
        case (Some x)
        with None a1 a2 a3 e2 Inr assms have "r = Some x" "s' = s3"
          by (simp_all add: try_simple_def icon512_def)
        with a3 Some nd pd r1 Inr show thesis
          by (intro others_failed [of base_image x]) simp_all
      next
        case None3: None
        with None a1 a2 a3 e2 Inr assms have "r = None" "s' = s3\<lparr>log := log s3 @ closing_lines\<rparr>"
          by (simp_all add: try_simple_def icon512_def emit_def)
        with a3 None3 nd pd r1 Inr show thesis
          by (intro finished [of base_image s3]) simp_all
      qed
    qed
  qed
qed

lemma generate_simple_icons_cases:
  obtains
    (import_failed) "\<not> has_PIL E"
      "generate_simple_icons E f0 = (1, \<lparr>fs = f0, log = [Traceback ImportError]\<rparr>)"
  | (mkdir_failed) x where "has_PIL E"
      "mkdir_parents (ICONS_DIR_simple E) True f0 = Inl x"
      "generate_simple_icons E f0 =
         (1, \<lparr>fs = f0, log = [Call (Mkdir (ICONS_DIR_simple E)), Traceback x]\<rparr>)"
  | (raised) f1 x s3 where "has_PIL E"
      "mkdir_parents (ICONS_DIR_simple E) True f0 = Inr f1"
      "try_simple E \<lparr>fs = f1, log = before_try_simple E\<rparr> = (Some x, s3)"
      "generate_simple_icons E f0 = (1, s3\<lparr>log := log s3 @ [Print (Error_exn x), Traceback x]\<rparr>)"
  | (succeeded) f1 s3 where "has_PIL E"
      "mkdir_parents (ICONS_DIR_simple E) True f0 = Inr f1"
      "try_simple E \<lparr>fs = f1, log = before_try_simple E\<rparr> = (None, s3)"
      "generate_simple_icons E f0 = (0, s3)"
proof (cases "has_PIL E")
  case False
  then show thesis
    by (intro import_failed) (auto simp: generate_simple_icons_def uncaught_def emit_def start_def)
next
  case True
  show thesis
  proof (cases "mkdir_parents (ICONS_DIR_simple E) True f0")
    case (Inl x)
    with True show thesis
      by (intro mkdir_failed [of x])
         (auto simp: generate_simple_icons_def mkdir_def uncaught_def emit_def start_def Let_def)
  next
    case (Inr f1)
    obtain r s3 where t: "try_simple E \<lparr>fs = f1, log = before_try_simple E\<rparr> = (r, s3)" by force
    show thesis
    proof (cases r)
      case None
      with True Inr t show thesis
        by (intro succeeded [of f1 s3])
           (auto simp: generate_simple_icons_def mkdir_def exit_def emit_def start_def Let_def)
    next
      case (Some x)
      with True Inr t show thesis
        by (intro raised [of f1 x s3])
           (auto simp: generate_simple_icons_def mkdir_def exit_def emit_def start_def Let_def)
    qed
  qed
qed

lemma calls_append: "calls (xs @ ys) = calls xs @ calls ys"
  by (induction xs rule: calls.induct) simp_all

lemma saved_paths_append: "saved_paths (xs @ ys) = saved_paths xs @ saved_paths ys"
  by (induction xs rule: saved_paths.induct) simp_all

lemma saved_paths_listing: "saved_paths (concat (map (listing_events E f) names)) = []"
  by (induction names) (simp_all add: saved_paths_append listing_events_def Let_def)

lemma saved_paths_listing_fst:
  "saved_paths (concat (map (listing_events E f \<circ> fst) es)) = []"
  using saved_paths_listing [of E f "map fst es"] by simp

lemma mkdir_parents_frame:
  "mkdir_parents p ok f = Inr f' \<Longrightarrow>
     f' q = f q \<or> (f q = None \<and> f' q = Some Dir \<and> (\<exists>r. p = q @ r))"
  using mkdir_rev_frame [of "rev p" ok f f' q] by (simp add: mkdir_parents_def)

lemma mkdir_parents_is_dir: "mkdir_parents p ok f = Inr f' \<Longrightarrow> is_dir f' p"
  using mkdir_rev_is_dir [of "rev p" ok f f'] by (simp add: mkdir_parents_def)

lemma mkdir_parents_files:
  "mkdir_parents p ok f = Inr f' \<Longrightarrow> (f' q = Some (File c)) = (f q = Some (File c))"
  using mkdir_parents_frame [of p ok f f' q] by auto

lemma mkdir_parents_keeps_dirs:
  "mkdir_parents p ok f = Inr f' \<Longrightarrow> is_dir f q \<Longrightarrow> is_dir f' q"
  using mkdir_parents_frame [of p ok f f' q] by (auto simp: is_dir_def)

lemma generate_icons_success:
  assumes "fst (generate_icons E f0) = 0"
  obtains f1 src px0 s3 where
    "has_PIL E" "has_cairosvg E"
    "mkdir_parents (ICONS_DIR E) True f0 = Inr f1"
    "read_file (SVG_SOURCE E) f1 = Inr src" "rasterize E src 512 512 = Inr px0"
    "\<not> is_dir f1 (temp_png E)" "is_dir f1 (parent (temp_png E))"
    "generate_sizes E (Image 512 512 px0) SIZES
       \<lparr>fs = f1(temp_png E \<mapsto> rendered E px0), log = after_open E\<rparr> = (None, s3)"
    "snd (generate_icons E f0) =
       s3\<lparr>fs := (fs s3)(temp_png E := None),
          log := log s3 @ after_sizes E @
                 concat (map (listing_events E ((fs s3)(temp_png E := None))) (map fst SIZES))\<rparr>"
proof (cases rule: generate_icons_cases [of E f0])
  case (succeeded f1 s3)
  from succeeded(5) show ?thesis
  proof (cases rule: try_icons_cases)
    case (finished src px0 s3')
    with succeeded show ?thesis
      by (intro that [of f1 src px0 s3']) simp_all
  qed simp_all
qed (use assms in simp_all)

lemma generate_icons_success_log:
  assumes "generate_sizes E base_img SIZES \<lparr>fs = f, log = l\<rparr> = (None, s3)"
  shows "log s3 = l @ concat (map (entry_events E) SIZES)"
  using generate_sizes_log [OF assms] by auto

lemma generate_icons_success_files:
  assumes "generate_sizes E base_img SIZES \<lparr>fs = f, log = l\<rparr> = (None, s3)"
    and "(n, w, h) \<in> set SIZES"
  shows "\<exists>px. lanczos E base_img (w, h) = Inr px \<and>
           fs s3 (entry_path E (n, w, h)) =
             Some (File (Img (entry_encoding (n, w, h)) (Image w h px)))"
proof -
  from generate_sizes_written [OF assms(1) distinct_entry_paths] obtain new where
    new: "log s3 = l @ new" and
    w: "\<And>n w h. Print (Generated n w h) \<in> set new \<Longrightarrow>
          (\<exists>px. lanczos E base_img (w, h) = Inr px \<and>
             fs s3 (entry_path E (n, w, h)) =
               Some (File (Img (entry_encoding (n, w, h)) (Image w h px))))"
    by auto
  from new generate_icons_success_log [OF assms(1)]
  have "new = concat (map (entry_events E) SIZES)" by simp
  with assms(2) have "Print (Generated n w h) \<in> set new"
    by (force simp: entry_events_def)
  then show ?thesis by (rule w)
qed

lemma icon512_not_other: "icon512 E \<notin> other_path E ` set sizes"
  by (simp add: sizes_def other_path_def icon512_def path_defs)

lemma distinct_other_paths: "distinct (map (other_path E) sizes)"
  by (simp add: sizes_def other_path_def path_defs)

lemma generate_simple_icons_success:
  assumes "fst (generate_simple_icons E f0) = 0"
  obtains f1 base_image s3 where
    "has_PIL E"
    "mkdir_parents (ICONS_DIR_simple E) True f0 = Inr f1"
    "fst (draw_sparkle_star E base_size None \<lparr>fs = f1, log = before_try_simple E\<rparr>) = Inr base_image"
    "\<not> is_dir f1 (icon512 E)" "is_dir f1 (parent (icon512 E))"
    "generate_other_sizes E base_image sizes
       \<lparr>fs = f1(icon512 E \<mapsto> File (Img (PNG False) base_image)), log = after_512 E\<rparr> = (None, s3)"
    "snd (generate_simple_icons E f0) = s3\<lparr>log := log s3 @ closing_lines\<rparr>"
proof (cases rule: generate_simple_icons_cases [of E f0])
  case (succeeded f1 s3)
  from succeeded(3) show ?thesis
  proof (cases rule: try_simple_cases)
    case (finished base_image s3')
    with succeeded show ?thesis
      by (intro that [of f1 base_image s3']) simp_all
  qed simp_all
qed (use assms in simp_all)

lemma generate_other_sizes_success_log:
  assumes "generate_other_sizes E base_image sizes \<lparr>fs = f, log = l\<rparr> = (None, s3)"
  shows "log s3 = l @ concat (map (other_events E base_image) sizes)"
  using generate_other_sizes_log [OF assms] by auto

lemma generate_other_sizes_success_resized:
  "generate_other_sizes E base_image es s = (None, s') \<Longrightarrow> e \<in> set es \<Longrightarrow>
     \<exists>px. lanczos E base_image (snd e, snd e) = Inr px"
proof (induction es arbitrary: s)
  case Nil
  then show ?case by simp
next
  case (Cons a es)
  from Cons.prems(1) show ?case
  proof (cases rule: generate_other_sizes_Cons_cases)
    case (saved px)
    with Cons.IH [OF saved(4)] Cons.prems(2) show ?thesis by auto
  qed simp_all
qed

lemma generate_other_sizes_success_files:
  assumes "generate_other_sizes E base_image sizes \<lparr>fs = f, log = l\<rparr> = (None, s3)"
    and "(n, w) \<in> set sizes"
  shows "\<exists>px. lanczos E base_image (w, w) = Inr px \<and>
           fs s3 (other_path E (n, w)) = Some (File (Img (other_encoding (n, w)) (Image w w px)))"
proof -
  from generate_other_sizes_written [OF assms(1) distinct_other_paths] obtain new where
    new: "log s3 = l @ new" and
    w0: "\<forall>n w h k. Print (Generated_KB n w h k) \<in> set new \<longrightarrow>
          w = h \<and> (n, w) \<in> set sizes \<and>
          (\<exists>px. lanczos E base_image (w, w) = Inr px \<and>
             fs s3 (other_path E (n, w)) =
               Some (File (Img (other_encoding (n, w)) (Image w w px))))"
    by auto
  from new generate_other_sizes_success_log [OF assms(1)]
  have new_eq: "new = concat (map (other_events E base_image) sizes)" by simp
  from generate_other_sizes_success_resized [OF assms] obtain px where
    px: "lanczos E base_image (w, w) = Inr px" by auto
  let ?k = "st_size E (File (Img (other_encoding (n, w)) (Image w w px)))"
  have "Print (Generated_KB n w w ?k) \<in> set (other_events E base_image (n, w))"
    using px by (simp add: other_events_def)
  with assms(2) new_eq have "Print (Generated_KB n w w ?k) \<in> set new"
    by force
  with w0 show ?thesis by blast
qed

lemmas run_defs =
  generate_icons_def try_icons_def SIZES_def generate_simple_icons_def try_simple_def
  draw_sparkle_star_def sizes_def base_size_def start_def ROOT_def ROOT_simple_def parent_def
  path_defs is_dir_def exists_def os_mkdir_def mkdir1_def mkdir_parents_def write_file_def
  read_file_def os_unlink_def emit_def exit_def uncaught_def mkdir_def path_exists_def stat_def
  unlink_def svg2png_def Image_open_def resize_def save_def endswith_def Let_def

lemma demo_generate_icons_exit: "fst (generate_icons demo_env demo_fs) = 0"
  by (simp add: demo_env_def demo_fs_def run_defs)

lemma demo_generate_simple_icons_exit: "fst (generate_simple_icons demo_env demo_fs) = 0"
  by (simp add: demo_env_def demo_fs_def run_defs)

lemma entry_path_image:
  "(\<lambda>(n, w, h). joinpath (PUBLIC_DIR E) n) ` set SIZES = entry_path E ` set SIZES"
  by (simp add: entry_path_def SIZES_def)

lemma generate_icons_success_saved:
  assumes "fst (generate_icons E f0) = 0"
  shows "saved_paths (log (snd (generate_icons E f0))) =
           map (\<lambda>(n, w, h). joinpath (PUBLIC_DIR E) n) SIZES"
proof -
  from assms show ?thesis
  proof (rule generate_icons_success)
    fix f1 src px0 s3
    assume gs: "generate_sizes E (Image 512 512 px0) SIZES
       \<lparr>fs = f1(temp_png E \<mapsto> rendered E px0), log = after_open E\<rparr> = (None, s3)"
    and fin: "snd (generate_icons E f0) =
       s3\<lparr>fs := (fs s3)(temp_png E := None),
          log := log s3 @ after_sizes E @
                 concat (map (listing_events E ((fs s3)(temp_png E := None))) (map fst SIZES))\<rparr>"
    have "log s3 = after_open E @ concat (map (entry_events E) SIZES)"
      using gs by (rule generate_icons_success_log)
    moreover have "saved_paths (concat (map (entry_events E) SIZES)) =
        map (\<lambda>(n, w, h). joinpath (PUBLIC_DIR E) n) SIZES"
      by (simp add: SIZES_def entry_events_def entry_path_def)
    ultimately show ?thesis
      by (simp add: fin saved_paths_append saved_paths_listing_fst)
  qed
qed

lemma generate_icons_success_table:
  assumes "fst (generate_icons E f0) = 0" and "(n, w, h) \<in> set SIZES"
  shows "\<exists>px. fs (snd (generate_icons E f0)) (joinpath (PUBLIC_DIR E) n) =
           Some (File (Img (if endswith n ''.ico'' then ICO (Some [(w, h)]) else PNG True)
                        (Image w h px)))"
proof -
  from assms(1) show ?thesis
  proof (rule generate_icons_success)
    fix f1 src px0 s3
    assume gs: "generate_sizes E (Image 512 512 px0) SIZES
       \<lparr>fs = f1(temp_png E \<mapsto> rendered E px0), log = after_open E\<rparr> = (None, s3)"
    and fin: "snd (generate_icons E f0) =
       s3\<lparr>fs := (fs s3)(temp_png E := None),
          log := log s3 @ after_sizes E @
                 concat (map (listing_events E ((fs s3)(temp_png E := None))) (map fst SIZES))\<rparr>"
    from generate_icons_success_files [OF gs assms(2)] obtain px where
      "fs s3 (entry_path E (n, w, h)) =
         Some (File (Img (entry_encoding (n, w, h)) (Image w h px)))"
      by auto
    moreover have "entry_path E (n, w, h) \<noteq> temp_png E"
      using temp_not_entry [of E] assms(2) by force
    ultimately show ?thesis
      by (auto simp: fin entry_path_def entry_encoding_def)
  qed
qed

lemma generate_icons_success_new_files:
  assumes "fst (generate_icons E f0) = 0" and "fs (snd (generate_icons E f0)) q = Some (File c)"
  shows "f0 q = Some (File c) \<or> q \<in> (\<lambda>(n, w, h). joinpath (PUBLIC_DIR E) n) ` set SIZES"
proof -
  from assms(1) show ?thesis
  proof (rule generate_icons_success)
    fix f1 src px0 s3
    assume mk: "mkdir_parents (ICONS_DIR E) True f0 = Inr f1"
    and gs: "generate_sizes E (Image 512 512 px0) SIZES
       \<lparr>fs = f1(temp_png E \<mapsto> rendered E px0), log = after_open E\<rparr> = (None, s3)"
    and fin: "snd (generate_icons E f0) =
       s3\<lparr>fs := (fs s3)(temp_png E := None),
          log := log s3 @ after_sizes E @
                 concat (map (listing_events E ((fs s3)(temp_png E := None))) (map fst SIZES))\<rparr>"
    show ?thesis
    proof (cases "q \<in> entry_path E ` set SIZES")
      case True
      then show ?thesis by (simp add: entry_path_image)
    next
      case False
      from assms(2) fin have nt: "q \<noteq> temp_png E" and "fs s3 q = Some (File c)"
        by (auto split: if_splits)
      with generate_sizes_frame [OF gs False] nt have "f1 q = Some (File c)" by simp
      with mkdir_parents_files [OF mk] show ?thesis by simp
    qed
  qed
qed

lemma saved_paths_other_events:
  "lanczos E base_image (snd e, snd e) = Inr px \<Longrightarrow>
     saved_paths (other_events E base_image e) = [other_path E e]"
  by (simp add: other_events_def)

lemma generate_simple_icons_success_saved:
  assumes "fst (generate_simple_icons E f0) = 0"
  shows "saved_paths (log (snd (generate_simple_icons E f0))) =
           map (joinpath (PUBLIC_DIR_simple E))
             [''icons/icon-512x512.png'', ''favicon.ico'', ''icons/icon-192x192.png'',
              ''icons/apple-touch-icon.png'']"
proof -
  from assms show ?thesis
  proof (rule generate_simple_icons_success)
    fix f1 base_image s3
    assume gs: "generate_other_sizes E base_image sizes
       \<lparr>fs = f1(icon512 E \<mapsto> File (Img (PNG False) base_image)), log = after_512 E\<rparr> = (None, s3)"
    and fin: "snd (generate_simple_icons E f0) = s3\<lparr>log := log s3 @ closing_lines\<rparr>"
    have l: "log s3 = after_512 E @ concat (map (other_events E base_image) sizes)"
      using gs by (rule generate_other_sizes_success_log)
    have "saved_paths (other_events E base_image e) = [other_path E e]" if "e \<in> set sizes" for e
    proof -
      from generate_other_sizes_success_resized [OF gs that] obtain px where
        "lanczos E base_image (snd e, snd e) = Inr px" ..
      then show ?thesis by (rule saved_paths_other_events)
    qed
    then have "saved_paths (concat (map (other_events E base_image) sizes)) =
        map (other_path E) sizes"
      by (simp add: sizes_def saved_paths_append)
    with l show ?thesis
      by (simp add: fin saved_paths_append sizes_def other_path_def icon512_def path_defs)
  qed
qed

lemma generate_simple_icons_success_512:
  assumes "fst (generate_simple_icons E f0) = 0"
  shows "\<exists>f1 base_image.
           mkdir_parents (ICONS_DIR_simple E) True f0 = Inr f1 \<and>
           fst (draw_sparkle_star E base_size None \<lparr>fs = f1, log = before_try_simple E\<rparr>) =
             Inr base_image \<and>
           im_width base_image = 512 \<and> im_height base_image = 512 \<and>
           fs (snd (generate_simple_icons E f0)) (icon512 E) =
             Some (File (Img (PNG False) base_image))"
proof -
  from assms show ?thesis
  proof (rule generate_simple_icons_success)
    fix f1 base_image s3
    assume mk: "mkdir_parents (ICONS_DIR_simple E) True f0 = Inr f1"
    and dr: "fst (draw_sparkle_star E base_size None \<lparr>fs = f1, log = before_try_simple E\<rparr>) =
        Inr base_image"
    and gs: "generate_other_sizes E base_image sizes
       \<lparr>fs = f1(icon512 E \<mapsto> File (Img (PNG False) base_image)), log = after_512 E\<rparr> = (None, s3)"
    and fin: "snd (generate_simple_icons E f0) = s3\<lparr>log := log s3 @ closing_lines\<rparr>"
    from generate_other_sizes_frame [OF gs icon512_not_other]
    have "fs s3 (icon512 E) = Some (File (Img (PNG False) base_image))" by simp
    moreover from draw_sparkle_star_size [OF dr]
    have "im_width base_image = 512 \<and> im_height base_image = 512" by (simp add: base_size_def)
    ultimately show ?thesis using mk dr fin by auto
  qed
qed

lemma generate_simple_icons_success_sizes:
  assumes "fst (generate_simple_icons E f0) = 0" and "(n, w) \<in> set sizes"
  shows "\<exists>px. fs (snd (generate_simple_icons E f0)) (joinpath (PUBLIC_DIR_simple E) n) =
           Some (File (Img (if endswith n ''.ico'' then ICO None else PNG False) (Image w w px)))"
proof -
  from assms(1) show ?thesis
  proof (rule generate_simple_icons_success)
    fix f1 base_image s3
    assume gs: "generate_other_sizes E base_image sizes
       \<lparr>fs = f1(icon512 E \<mapsto> File (Img (PNG False) base_image)), log = after_512 E\<rparr> = (None, s3)"
    and fin: "snd (generate_simple_icons E f0) = s3\<lparr>log := log s3 @ closing_lines\<rparr>"
    from generate_other_sizes_success_files [OF gs assms(2)] show ?thesis
      by (auto simp: fin other_path_def other_encoding_def)
  qed
qed

lemma generate_simple_icons_success_table:
  assumes "fst (generate_simple_icons E f0) = 0" and "(n, w, h) \<in> set SIZES"
  shows "\<exists>enc px. fs (snd (generate_simple_icons E f0)) (joinpath (PUBLIC_DIR_simple E) n) =
           Some (File (Img enc (Image w h px)))"
proof -
  from assms(2) consider "(n, w) \<in> set sizes \<and> h = w" | "n = ''icons/icon-512x512.png'' \<and> w = 512 \<and> h = 512"
    by (auto simp: SIZES_def sizes_def)
  then show ?thesis
  proof cases
    case 1
    with generate_simple_icons_success_sizes [OF assms(1), of n w] show ?thesis by blast
  next
    case 2
    from generate_simple_icons_success_512 [OF assms(1)] obtain base_image where
      "im_width base_image = 512" "im_height base_image = 512"
      "fs (snd (generate_simple_icons E f0)) (icon512 E) = Some (File (Img (PNG False) base_image))"
      by blast
    then have "fs (snd (generate_simple_icons E f0)) (icon512 E) =
        Some (File (Img (PNG False) (Image 512 512 (pixels base_image))))"
      by (cases base_image) simp
    moreover have "icon512 E = joinpath (PUBLIC_DIR_simple E) ''icons/icon-512x512.png''"
      by (simp add: icon512_def path_defs)
    ultimately show ?thesis using 2 by auto
  qed
qed

lemma generate_simple_icons_success_new_files:
  assumes "fst (generate_simple_icons E f0) = 0"
    and "fs (snd (generate_simple_icons E f0)) q = Some (File c)"
  shows "f0 q = Some (File c) \<or> q \<in> (\<lambda>(n, w, h). joinpath (PUBLIC_DIR_simple E) n) ` set SIZES"
proof -
  from assms(1) show ?thesis
  proof (rule generate_simple_icons_success)
    fix f1 base_image s3
    assume mk: "mkdir_parents (ICONS_DIR_simple E) True f0 = Inr f1"
    and gs: "generate_other_sizes E base_image sizes
       \<lparr>fs = f1(icon512 E \<mapsto> File (Img (PNG False) base_image)), log = after_512 E\<rparr> = (None, s3)"
    and fin: "snd (generate_simple_icons E f0) = s3\<lparr>log := log s3 @ closing_lines\<rparr>"
    have img: "(\<lambda>(n, w, h). joinpath (PUBLIC_DIR_simple E) n) ` set SIZES =
        insert (icon512 E) (other_path E ` set sizes)"
      by (auto simp: SIZES_def sizes_def other_path_def icon512_def path_defs)
    show ?thesis
    proof (cases "q \<in> insert (icon512 E) (other_path E ` set sizes)")
      case True
      then show ?thesis by (simp only: img) simp
    next
      case False
      then have "q \<notin> other_path E ` set sizes" "q \<noteq> icon512 E" by auto
      with generate_other_sizes_frame [OF gs this(1)] assms(2) fin
      have "f1 q = Some (File c)" by simp
      with mkdir_parents_files [OF mk] show ?thesis by simp
    qed
  qed
qed

text \<open>
  Claim C1: a run that ends with exit status 0 (all imports succeeded, the source was there
  and nothing raised) has saved exactly the four paths of the size table, each of them holds
  an image whose pixel dimensions are those of its table entry, and every file on the disk
  afterwards is one of the four or was there before, unchanged. This holds for the vector
  variant and for the procedural variant.
\<close>

theorem icons_written_with_table_dimensions:
  "(fst (generate_icons E f0) = 0 \<longrightarrow>
      saved_paths (log (snd (generate_icons E f0))) =
        map (\<lambda>(n, w, h). joinpath (PUBLIC_DIR E) n) SIZES \<and>
      (\<forall>(n, w, h) \<in> set SIZES. \<exists>enc px.
         fs (snd (generate_icons E f0)) (joinpath (PUBLIC_DIR E) n) =
           Some (File (Img enc (Image w h px)))) \<and>
      (\<forall>q c. fs (snd (generate_icons E f0)) q = Some (File c) \<longrightarrow>
         f0 q = Some (File c) \<or> q \<in> (\<lambda>(n, w, h). joinpath (PUBLIC_DIR E) n) ` set SIZES)) \<and>
   (fst (generate_simple_icons E f0) = 0 \<longrightarrow>
      saved_paths (log (snd (generate_simple_icons E f0))) =
        map (joinpath (PUBLIC_DIR_simple E))
          [''icons/icon-512x512.png'', ''favicon.ico'', ''icons/icon-192x192.png'',
           ''icons/apple-touch-icon.png''] \<and>
      (\<forall>(n, w, h) \<in> set SIZES. \<exists>enc px.
         fs (snd (generate_simple_icons E f0)) (joinpath (PUBLIC_DIR_simple E) n) =
           Some (File (Img enc (Image w h px)))) \<and>
      (\<forall>q c. fs (snd (generate_simple_icons E f0)) q = Some (File c) \<longrightarrow>
         f0 q = Some (File c) \<or>
         q \<in> (\<lambda>(n, w, h). joinpath (PUBLIC_DIR_simple E) n) ` set SIZES))"
proof (intro conjI impI ballI allI)
  assume "fst (generate_icons E f0) = 0"
  then show "saved_paths (log (snd (generate_icons E f0))) =
      map (\<lambda>(n, w, h). joinpath (PUBLIC_DIR E) n) SIZES"
    by (rule generate_icons_success_saved)
next
  fix e
  assume ok: "fst (generate_icons E f0) = 0" and e: "e \<in> set SIZES"
  obtain n w h where nwh: "e = (n, w, h)" by (cases e)
  with generate_icons_success_table [OF ok, of n w h] e
  show "case e of (n, w, h) \<Rightarrow> \<exists>enc px.
      fs (snd (generate_icons E f0)) (joinpath (PUBLIC_DIR E) n) = Some (File (Img enc (Image w h px)))"
    by auto
next
  fix q c
  assume "fst (generate_icons E f0) = 0" "fs (snd (generate_icons E f0)) q = Some (File c)"
  then show "f0 q = Some (File c) \<or> q \<in> (\<lambda>(n, w, h). joinpath (PUBLIC_DIR E) n) ` set SIZES"
    by (rule generate_icons_success_new_files)
next
  assume "fst (generate_simple_icons E f0) = 0"
  then show "saved_paths (log (snd (generate_simple_icons E f0))) =
        map (joinpath (PUBLIC_DIR_simple E))
          [''icons/icon-512x512.png'', ''favicon.ico'', ''icons/icon-192x192.png'',
           ''icons/apple-touch-icon.png'']"
    by (rule generate_simple_icons_success_saved)
next
  fix e
  assume ok: "fst (generate_simple_icons E f0) = 0" and e: "e \<in> set SIZES"
  obtain n w h where nwh: "e = (n, w, h)" by (cases e)
  with generate_simple_icons_success_table [OF ok, of n w h] e
  show "case e of (n, w, h) \<Rightarrow> \<exists>enc px.
      fs (snd (generate_simple_icons E f0)) (joinpath (PUBLIC_DIR_simple E) n) =
        Some (File (Img enc (Image w h px)))"
    by auto
next
  fix q c
  assume "fst (generate_simple_icons E f0) = 0"
    "fs (snd (generate_simple_icons E f0)) q = Some (File c)"
  then show "f0 q = Some (File c) \<or>
      q \<in> (\<lambda>(n, w, h). joinpath (PUBLIC_DIR_simple E) n) ` set SIZES"
    by (rule generate_simple_icons_success_new_files)
qed

theorem icons_written_with_table_dimensions_witness:
  "fst (generate_icons demo_env demo_fs) = 0 \<and>
   fst (generate_simple_icons demo_env demo_fs) = 0 \<and>
   saved_paths (log (snd (generate_icons demo_env demo_fs))) =
     [[''repo'', ''public'', ''favicon.ico''],
      [''repo'', ''public'', ''icons'', ''apple-touch-icon.png''],
      [''repo'', ''public'', ''icons'', ''icon-192x192.png''],
      [''repo'', ''public'', ''icons'', ''icon-512x512.png'']] \<and>
   saved_paths (log (snd (generate_simple_icons demo_env demo_fs))) =
     [[''repo'', ''scripts'', ''public'', ''icons'', ''icon-512x512.png''],
      [''repo'', ''scripts'', ''public'', ''favicon.ico''],
      [''repo'', ''scripts'', ''public'', ''icons'', ''icon-192x192.png''],
      [''repo'', ''scripts'', ''public'', ''icons'', ''apple-touch-icon.png'']]"
  using icons_written_with_table_dimensions [of demo_env demo_fs]
    demo_generate_icons_exit demo_generate_simple_icons_exit
  by (simp add: SIZES_def path_defs ROOT_def ROOT_simple_def parent_def demo_env_def)

text \<open>
  Claim C6, as stated, fails in the procedural variant: its PNG files are saved without the
  optimize option.
\<close>

theorem png_without_optimize_counterexample:
  "fst (generate_simple_icons demo_env demo_fs) = 0 \<and>
   encoding_at (fs (snd (generate_simple_icons demo_env demo_fs)))
     (joinpath (PUBLIC_DIR_simple demo_env) ''icons/icon-192x192.png'') = Some (PNG False) \<and>
   encoding_at (fs (snd (generate_simple_icons demo_env demo_fs)))
     (joinpath (PUBLIC_DIR_simple demo_env) ''icons/icon-192x192.png'') \<noteq> Some (PNG True)"
  by (simp add: demo_env_def demo_fs_def run_defs encoding_at_def)

text \<open>
  Claim C6, amended: in a successful run, a table entry whose name ends in \<open>.ico\<close> is
  saved as ICO and every other entry as PNG; the vector variant passes \<open>sizes=[(w, h)]\<close>
  to the ICO encoder and \<open>optimize=True\<close> to the PNG encoder, the procedural variant
  passes neither (and saves the 512x512 file as PNG without looking at the name).
\<close>

theorem encoding_chosen_from_extension:
  "(fst (generate_icons E f0) = 0 \<longrightarrow>
      (\<forall>(n, w, h) \<in> set SIZES.
         encoding_at (fs (snd (generate_icons E f0))) (joinpath (PUBLIC_DIR E) n) =
           Some (if endswith n ''.ico'' then ICO (Some [(w, h)]) else PNG True))) \<and>
   (fst (generate_simple_icons E f0) = 0 \<longrightarrow>
      (\<forall>(n, sz) \<in> set sizes.
         encoding_at (fs (snd (generate_simple_icons E f0))) (joinpath (PUBLIC_DIR_simple E) n) =
           Some (if endswith n ''.ico'' then ICO None else PNG False)) \<and>
      encoding_at (fs (snd (generate_simple_icons E f0)))
        (joinpath (joinpath (PUBLIC_DIR_simple E) ''icons'') ''icon-512x512.png'') =
        Some (PNG False))"
proof (intro conjI impI ballI)
  fix e
  assume ok: "fst (generate_icons E f0) = 0" and e: "e \<in> set SIZES"
  obtain n w h where nwh: "e = (n, w, h)" by (cases e)
  with generate_icons_success_table [OF ok, of n w h] e
  show "case e of (n, w, h) \<Rightarrow>
      encoding_at (fs (snd (generate_icons E f0))) (joinpath (PUBLIC_DIR E) n) =
        Some (if endswith n ''.ico'' then ICO (Some [(w, h)]) else PNG True)"
    by (auto simp: encoding_at_def)
next
  fix e
  assume ok: "fst (generate_simple_icons E f0) = 0" and e: "e \<in> set sizes"
  obtain n w where nw: "e = (n, w)" by (cases e)
  with generate_simple_icons_success_sizes [OF ok, of n w] e
  show "case e of (n, sz) \<Rightarrow>
      encoding_at (fs (snd (generate_simple_icons E f0))) (joinpath (PUBLIC_DIR_simple E) n) =
        Some (if endswith n ''.ico'' then ICO None else PNG False)"
    by (auto simp: encoding_at_def)
next
  assume ok: "fst (generate_simple_icons E f0) = 0"
  from generate_simple_icons_success_512 [OF ok]
  show "encoding_at (fs (snd (generate_simple_icons E f0)))
        (joinpath (joinpath (PUBLIC_DIR_simple E) ''icons'') ''icon-512x512.png'') =
        Some (PNG False)"
    by (auto simp: encoding_at_def icon512_def)
qed

theorem encoding_chosen_from_extension_witness:
  "fst (generate_icons demo_env demo_fs) = 0 \<and>
   fst (generate_simple_icons demo_env demo_fs) = 0 \<and>
   encoding_at (fs (snd (generate_icons demo_env demo_fs)))
     (joinpath (PUBLIC_DIR demo_env) ''favicon.ico'') = Some (ICO (Some [(64, 64)])) \<and>
   encoding_at (fs (snd (generate_icons demo_env demo_fs)))
     (joinpath (PUBLIC_DIR demo_env) ''icons/icon-192x192.png'') = Some (PNG True) \<and>
   encoding_at (fs (snd (generate_simple_icons demo_env demo_fs)))
     (joinpath (PUBLIC_DIR_simple demo_env) ''favicon.ico'') = Some (ICO None) \<and>
   encoding_at (fs (snd (generate_simple_icons demo_env demo_fs)))
     (joinpath (PUBLIC_DIR_simple demo_env) ''icons/apple-touch-icon.png'') = Some (PNG False)"
  using encoding_chosen_from_extension [of demo_env demo_fs]
    demo_generate_icons_exit demo_generate_simple_icons_exit
  by (simp add: SIZES_def sizes_def endswith_def)

text \<open>
  Claim C7, as stated, fails in the vector variant: the base image is not saved directly,
  the 512x512 entry goes through the resize call like every other entry. What the file
  then holds is whatever that call returns, as the amended claim below states.
\<close>

theorem resize_512_counterexample:
  "fst (generate_icons demo_env demo_fs) = 0 \<and>
   Call (Resize (512, 512)) \<in> set (log (snd (generate_icons demo_env demo_fs)))"
  by (simp add: demo_env_def demo_fs_def run_defs)

lemma resize_in_other_events1:
  "Call (Resize sz) \<in> set (other_events E base_image e) \<Longrightarrow> sz = (snd e, snd e)"
  by (cases "lanczos E base_image (snd e, snd e)") (auto simp: other_events_def)

lemma resize_in_other_events:
  "Call (Resize sz) \<in> set (concat (map (other_events E base_image) es)) \<Longrightarrow>
     sz \<in> (\<lambda>e. (snd e, snd e)) ` set es"
  by (auto dest: resize_in_other_events1)

text \<open>
  Claim C7, amended: in a successful run of the procedural variant the 512x512 file is the
  drawn base image itself (512 by 512), saved as PNG, and no resize to 512x512 is ever
  called. In a successful run of the vector variant \<open>resize((512, 512))\<close> is called on
  the base image (the 512x512 rasterisation of the source), and the 512x512 file holds
  what that call returned, saved as PNG with \<open>optimize=True\<close>. So the file holds the
  pixels of the base image whenever the library's resize to an image's own size returns
  the pixels unchanged, and only then.
\<close>

theorem base_image_saved_directly:
  "(fst (generate_simple_icons E f0) = 0 \<longrightarrow>
      Call (Resize (512, 512)) \<notin> set (log (snd (generate_simple_icons E f0))) \<and>
      (\<exists>base_image.
         fst (draw_sparkle_star E base_size None (start f0)) = Inr base_image \<and>
         im_width base_image = 512 \<and> im_height base_image = 512 \<and>
         fs (snd (generate_simple_icons E f0))
           (joinpath (joinpath (PUBLIC_DIR_simple E) ''icons'') ''icon-512x512.png'') =
           Some (File (Img (PNG False) base_image)))) \<and>
   (fst (generate_icons E f0) = 0 \<longrightarrow>
      Call (Resize (512, 512)) \<in> set (log (snd (generate_icons E f0))) \<and>
      (\<exists>f1 src px0 px.
         mkdir_parents (ICONS_DIR E) True f0 = Inr f1 \<and>
         read_file (SVG_SOURCE E) f1 = Inr src \<and> rasterize E src 512 512 = Inr px0 \<and>
         lanczos E (Image 512 512 px0) (512, 512) = Inr px \<and>
         fs (snd (generate_icons E f0)) (joinpath (PUBLIC_DIR E) ''icons/icon-512x512.png'') =
           Some (File (Img (PNG True) (Image 512 512 px))) \<and>
         (fs (snd (generate_icons E f0)) (joinpath (PUBLIC_DIR E) ''icons/icon-512x512.png'') =
            Some (File (Img (PNG True) (Image 512 512 px0)))) =
         (lanczos E (Image 512 512 px0) (512, 512) = Inr px0)))"
proof (intro conjI impI)
  assume ok: "fst (generate_simple_icons E f0) = 0"
  from ok show "Call (Resize (512, 512)) \<notin> set (log (snd (generate_simple_icons E f0)))"
  proof (rule generate_simple_icons_success)
    fix f1 base_image s3
    assume gs: "generate_other_sizes E base_image sizes
       \<lparr>fs = f1(icon512 E \<mapsto> File (Img (PNG False) base_image)), log = after_512 E\<rparr> = (None, s3)"
    and fin: "snd (generate_simple_icons E f0) = s3\<lparr>log := log s3 @ closing_lines\<rparr>"
    have l: "log s3 = after_512 E @ concat (map (other_events E base_image) sizes)"
      using gs by (rule generate_other_sizes_success_log)
    have "Call (Resize (512, 512)) \<notin> set (concat (map (other_events E base_image) sizes))"
      using resize_in_other_events [of "(512, 512)" E base_image sizes]
      by (auto simp: sizes_def)
    with l show ?thesis by (simp add: fin)
  qed
next
  assume ok: "fst (generate_simple_icons E f0) = 0"
  from generate_simple_icons_success_512 [OF ok] obtain f1 base_image where
    d: "fst (draw_sparkle_star E base_size None \<lparr>fs = f1, log = before_try_simple E\<rparr>) =
          Inr base_image" and
    r: "im_width base_image = 512" "im_height base_image = 512"
       "fs (snd (generate_simple_icons E f0)) (icon512 E) = Some (File (Img (PNG False) base_image))"
    by blast
  from d have "fst (draw_sparkle_star E base_size None (start f0)) = Inr base_image"
    using draw_sparkle_star_pure
      [of E base_size None "start f0" "\<lparr>fs = f1, log = before_try_simple E\<rparr>"]
    by simp
  with r show "\<exists>base_image.
         fst (draw_sparkle_star E base_size None (start f0)) = Inr base_image \<and>
         im_width base_image = 512 \<and> im_height base_image = 512 \<and>
         fs (snd (generate_simple_icons E f0))
           (joinpath (joinpath (PUBLIC_DIR_simple E) ''icons'') ''icon-512x512.png'') =
           Some (File (Img (PNG False) base_image))"
    by (auto simp: icon512_def)
next
  assume ok: "fst (generate_icons E f0) = 0"
  from ok show "Call (Resize (512, 512)) \<in> set (log (snd (generate_icons E f0)))"
  proof (rule generate_icons_success)
    fix f1 src px0 s3
    assume gs: "generate_sizes E (Image 512 512 px0) SIZES
       \<lparr>fs = f1(temp_png E \<mapsto> rendered E px0), log = after_open E\<rparr> = (None, s3)"
    and fin: "snd (generate_icons E f0) =
       s3\<lparr>fs := (fs s3)(temp_png E := None),
          log := log s3 @ after_sizes E @
                 concat (map (listing_events E ((fs s3)(temp_png E := None))) (map fst SIZES))\<rparr>"
    have "log s3 = after_open E @ concat (map (entry_events E) SIZES)"
      using gs by (rule generate_icons_success_log)
    then show ?thesis
      by (simp add: fin SIZES_def entry_events_def)
  qed
next
  assume ok: "fst (generate_icons E f0) = 0"
  let ?p = "joinpath (PUBLIC_DIR E) ''icons/icon-512x512.png''"
  from ok show "\<exists>f1 src px0 px.
         mkdir_parents (ICONS_DIR E) True f0 = Inr f1 \<and>
         read_file (SVG_SOURCE E) f1 = Inr src \<and> rasterize E src 512 512 = Inr px0 \<and>
         lanczos E (Image 512 512 px0) (512, 512) = Inr px \<and>
         fs (snd (generate_icons E f0)) ?p = Some (File (Img (PNG True) (Image 512 512 px))) \<and>
         (fs (snd (generate_icons E f0)) ?p = Some (File (Img (PNG True) (Image 512 512 px0)))) =
         (lanczos E (Image 512 512 px0) (512, 512) = Inr px0)"
  proof (rule generate_icons_success)
    fix f1 src px0 s3
    assume mk: "mkdir_parents (ICONS_DIR E) True f0 = Inr f1"
      and rd: "read_file (SVG_SOURCE E) f1 = Inr src" and ra: "rasterize E src 512 512 = Inr px0"
      and gs: "generate_sizes E (Image 512 512 px0) SIZES
         \<lparr>fs = f1(temp_png E \<mapsto> rendered E px0), log = after_open E\<rparr> = (None, s3)"
      and fin: "snd (generate_icons E f0) =
         s3\<lparr>fs := (fs s3)(temp_png E := None),
            log := log s3 @ after_sizes E @
                   concat (map (listing_events E ((fs s3)(temp_png E := None))) (map fst SIZES))\<rparr>"
    have e: "(''icons/icon-512x512.png'', 512, 512) \<in> set SIZES"
      by (simp add: SIZES_def)
    from generate_icons_success_files [OF gs e] obtain px where
      lz: "lanczos E (Image 512 512 px0) (512, 512) = Inr px" and
      f: "fs s3 (entry_path E (''icons/icon-512x512.png'', 512, 512)) =
            Some (File (Img (entry_encoding (''icons/icon-512x512.png'', 512, 512))
                         (Image 512 512 px)))"
      by blast
    from e temp_not_entry [of E]
    have "entry_path E (''icons/icon-512x512.png'', 512, 512) \<noteq> temp_png E" by force
    with f fin
    have saved: "fs (snd (generate_icons E f0)) ?p = Some (File (Img (PNG True) (Image 512 512 px)))"
      by (simp add: entry_path_def entry_encoding_def endswith_def)
    from saved lz
    have "(fs (snd (generate_icons E f0)) ?p = Some (File (Img (PNG True) (Image 512 512 px0)))) =
        (lanczos E (Image 512 512 px0) (512, 512) = Inr px0)"
      by auto
    with mk rd ra lz saved show ?thesis by blast
  qed
qed

theorem base_image_saved_directly_witness:
  "fst (generate_simple_icons demo_env demo_fs) = 0 \<and>
   fst (generate_icons demo_env demo_fs) = 0 \<and>
   Call (Resize (512, 512)) \<notin> set (log (snd (generate_simple_icons demo_env demo_fs))) \<and>
   Call (Resize (512, 512)) \<in> set (log (snd (generate_icons demo_env demo_fs))) \<and>
   (\<exists>base_image.
      fst (draw_sparkle_star demo_env base_size None (start demo_fs)) = Inr base_image \<and>
      fs (snd (generate_simple_icons demo_env demo_fs))
        (joinpath (joinpath (PUBLIC_DIR_simple demo_env) ''icons'') ''icon-512x512.png'') =
        Some (File (Img (PNG False) base_image))) \<and>
   (\<exists>f1 src px0 px.
      mkdir_parents (ICONS_DIR demo_env) True demo_fs = Inr f1 \<and>
      read_file (SVG_SOURCE demo_env) f1 = Inr src \<and> rasterize demo_env src 512 512 = Inr px0 \<and>
      lanczos demo_env (Image 512 512 px0) (512, 512) = Inr px \<and>
      fs (snd (generate_icons demo_env demo_fs))
        (joinpath (PUBLIC_DIR demo_env) ''icons/icon-512x512.png'') =
        Some (File (Img (PNG True) (Image 512 512 px))))"
proof -
  note t = base_image_saved_directly [of demo_env demo_fs]
  note p = t [THEN conjunct1, rule_format, OF demo_generate_simple_icons_exit]
  note v = t [THEN conjunct2, rule_format, OF demo_generate_icons_exit]
  from p have "\<exists>base_image.
      fst (draw_sparkle_star demo_env base_size None (start demo_fs)) = Inr base_image \<and>
      fs (snd (generate_simple_icons demo_env demo_fs))
        (joinpath (joinpath (PUBLIC_DIR_simple demo_env) ''icons'') ''icon-512x512.png'') =
        Some (File (Img (PNG False) base_image))"
    by blast
  moreover from v have "\<exists>f1 src px0 px.
      mkdir_parents (ICONS_DIR demo_env) True demo_fs = Inr f1 \<and>
      read_file (SVG_SOURCE demo_env) f1 = Inr src \<and> rasterize demo_env src 512 512 = Inr px0 \<and>
      lanczos demo_env (Image 512 512 px0) (512, 512) = Inr px \<and>
      fs (snd (generate_icons demo_env demo_fs))
        (joinpath (PUBLIC_DIR demo_env) ''icons/icon-512x512.png'') =
        Some (File (Img (PNG True) (Image 512 512 px)))"
    by blast
  ultimately show ?thesis
    using p [THEN conjunct1] v [THEN conjunct1]
      demo_generate_icons_exit demo_generate_simple_icons_exit
    by blast
qed

lemma no_file_rev_prefix: "no_file_rev f rp \<Longrightarrow> rev rp = q @ r \<Longrightarrow> q \<noteq> [] \<Longrightarrow> f q \<noteq> Some (File c)"
proof (induction rp arbitrary: r)
  case Nil
  then show ?case by simp
next
  case (Cons a rp)
  show ?case
  proof (cases r rule: rev_cases)
    case Nil
    with Cons.prems have "q = rev (a # rp)" by simp
    with Cons.prems(1) show ?thesis by (auto split: option.splits node.splits)
  next
    case (snoc r' x)
    with Cons.prems have "rev rp = q @ r'" by simp
    with Cons.IH [of r'] Cons.prems show ?thesis by simp
  qed
qed

lemma mkdir_rev_no_file: "no_file_rev f rp \<Longrightarrow> \<exists>f'. mkdir_rev rp True f = Inr f'"
proof (induction rp arbitrary: f)
  case Nil
  then show ?case by (simp add: os_mkdir_def exists_def is_dir_def)
next
  case (Cons c rp)
  let ?p = "rev (c # rp)"
  from Cons.prems have nofile: "f ?p \<noteq> Some (File x)" for x
    by (auto split: option.splits node.splits)
  from Cons.prems have rest: "no_file_rev f rp" by simp
  have nofile_parent: "rev rp \<noteq> [] \<Longrightarrow> f (rev rp) \<noteq> Some (File x)" for x
    using no_file_rev_prefix [OF rest, of "rev rp" "[]"] by simp
  from Cons.IH [OF rest] obtain f1 where f1: "mkdir_rev rp True f = Inr f1" ..
  have d1: "is_dir f1 (rev rp)" using f1 by (rule mkdir_rev_is_dir)
  have "f1 ?p \<noteq> Some (File x)" for x
    using mkdir_rev_frame [OF f1, of ?p] nofile by auto
  then have "\<exists>f'. mkdir1 ?p True f1 = Inr f'"
    using d1 by (cases "f1 ?p"; cases "the (f1 ?p)")
      (auto simp: mkdir1_def os_mkdir_def exists_def is_dir_def parent_def)
  with f1 nofile nofile_parent show ?case
    by (cases "f ?p"; cases "the (f ?p)"; cases "f (rev rp)"; cases "the (f (rev rp))")
       (auto simp: os_mkdir_def exists_def is_dir_def parent_def)
qed

lemma mkdir_parents_no_file: "no_file_above f p \<Longrightarrow> \<exists>f'. mkdir_parents p True f = Inr f'"
  by (simp add: no_file_above_def mkdir_parents_def mkdir_rev_no_file)

lemma try_icons_dirs:
  assumes "try_icons E s = (r, s')"
  shows "is_dir (fs s') q = is_dir (fs s) q"
  using assms
proof (cases rule: try_icons_cases)
  case (svg2png_failed x)
  then show ?thesis by simp
next
  case (sizes_failed src px0 x)
  from generate_sizes_dirs [OF sizes_failed(5), of q] sizes_failed(3) show ?thesis
    by (auto simp: is_dir_def)
next
  case (finished src px0 s3)
  from generate_sizes_dirs [OF finished(5), of q] finished(3) show ?thesis
    by (auto simp: finished(7) is_dir_def)
qed

lemma try_icons_log:
  assumes "try_icons E s = (r, s')"
  shows "\<exists>new. log s' = log s @ new"
  using assms
proof (cases rule: try_icons_cases)
  case (svg2png_failed x)
  then show ?thesis by simp
next
  case (sizes_failed src px0 x)
  from generate_sizes_log [OF sizes_failed(5)] show ?thesis by auto
next
  case (finished src px0 s3)
  from generate_sizes_log [OF finished(5)] show ?thesis by (auto simp: finished(7))
qed

lemma try_simple_dirs:
  assumes "try_simple E s = (r, s')"
  shows "is_dir (fs s') q = is_dir (fs s) q"
  using assms
proof (cases rule: try_simple_cases)
  case (draw_failed x)
  then show ?thesis by simp
next
  case (save_failed base_image x)
  then show ?thesis by simp
next
  case (others_failed base_image x)
  from generate_other_sizes_dirs [OF others_failed(4), of q] others_failed(2) show ?thesis
    by (auto simp: is_dir_def)
next
  case (finished base_image s3)
  from generate_other_sizes_dirs [OF finished(4), of q] finished(2) show ?thesis
    by (auto simp: finished(6) is_dir_def)
qed

lemma try_simple_log:
  assumes "try_simple E s = (r, s')"
  shows "\<exists>new. log s' = log s @ new"
  using assms
proof (cases rule: try_simple_cases)
  case (draw_failed x)
  then show ?thesis by simp
next
  case (save_failed base_image x)
  then show ?thesis by simp
next
  case (others_failed base_image x)
  from generate_other_sizes_log [OF others_failed(4)] show ?thesis by auto
next
  case (finished base_image s3)
  from generate_other_sizes_log [OF finished(4)] show ?thesis by (auto simp: finished(6))
qed

lemma svg_not_above_icons: "ICONS_DIR E \<noteq> SVG_SOURCE E @ r"
  by (simp add: path_defs)

text \<open>
  Claim C3: in the vector variant, when the source vector file does not exist, the run ends
  with exit status 1, no save and no rasterisation is attempted, and the files on the disk
  are exactly the files that were there before, with their contents.
\<close>

theorem missing_source_writes_nothing:
  assumes "\<not> exists f0 (SVG_SOURCE E)"
  shows "fst (generate_icons E f0) = 1 \<and>
         saved_paths (log (snd (generate_icons E f0))) = [] \<and>
         (\<forall>u t w h. Call (Svg2png u t w h) \<notin> set (log (snd (generate_icons E f0)))) \<and>
         (\<forall>p c. fs (snd (generate_icons E f0)) p = Some (File c) \<longleftrightarrow> f0 p = Some (File c))"
proof (cases rule: generate_icons_cases [of E f0])
  case missing_dependency
  then show ?thesis by simp
next
  case (mkdir_failed x)
  then show ?thesis by simp
next
  case (no_source f1)
  with mkdir_parents_files [OF no_source(3)] show ?thesis by simp
next
  case (raised f1 x s3)
  from mkdir_parents_frame [OF raised(3), of "SVG_SOURCE E"] raised(4) assms
  have False by (auto simp: exists_def svg_not_above_icons)
  then show ?thesis ..
next
  case (succeeded f1 s3)
  from mkdir_parents_frame [OF succeeded(3), of "SVG_SOURCE E"] succeeded(4) assms
  have False by (auto simp: exists_def svg_not_above_icons)
  then show ?thesis ..
qed

theorem missing_source_writes_nothing_witness:
  "\<not> exists bare_fs (SVG_SOURCE demo_env) \<and>
   fst (generate_icons demo_env bare_fs) = 1 \<and>
   saved_paths (log (snd (generate_icons demo_env bare_fs))) = []"
proof -
  have h: "\<not> exists bare_fs (SVG_SOURCE demo_env)"
    by (simp add: exists_def bare_fs_def path_defs ROOT_def parent_def demo_env_def)
  from missing_source_writes_nothing [OF h] h show ?thesis by simp
qed

text \<open>
  Claim C8, as stated, fails in the procedural variant: when PIL cannot be imported, the
  run ends on the uncaught ImportError and prints no installation instructions.
\<close>

theorem unguarded_import_counterexample:
  "generate_simple_icons (demo_env\<lparr>has_PIL := False\<rparr>) demo_fs =
     (1, \<lparr>fs = demo_fs, log = [Traceback ImportError]\<rparr>) \<and>
   Print Pip_install_pillow_cairosvg \<notin>
     set (log (snd (generate_simple_icons (demo_env\<lparr>has_PIL := False\<rparr>) demo_fs)))"
  by (simp add: generate_simple_icons_def uncaught_def emit_def start_def demo_env_def)

text \<open>
  Claim C8, amended: in the vector variant, when PIL or cairosvg cannot be imported, the run
  prints the two lines of installation instructions and exits with status 1; in the
  procedural variant, when PIL cannot be imported, the run ends on the uncaught ImportError
  (a traceback, exit status 1) and prints no instructions. In both, nothing else happens:
  no call is made and the filesystem is the one the run started on.
\<close>

theorem missing_dependency_stops_at_import:
  "(\<not> (has_PIL E \<and> has_cairosvg E) \<longrightarrow>
      generate_icons E f0 =
        (1, \<lparr>fs = f0, log = [Print Missing_dependencies, Print Pip_install_pillow_cairosvg]\<rparr>)) \<and>
   (\<not> has_PIL E \<longrightarrow>
      generate_simple_icons E f0 = (1, \<lparr>fs = f0, log = [Traceback ImportError]\<rparr>))"
  by (simp add: generate_icons_def generate_simple_icons_def exit_def uncaught_def emit_def
        start_def)

theorem missing_dependency_stops_at_import_witness:
  "\<not> (has_PIL (demo_env\<lparr>has_cairosvg := False\<rparr>) \<and> has_cairosvg (demo_env\<lparr>has_cairosvg := False\<rparr>)) \<and>
   \<not> has_PIL (demo_env\<lparr>has_PIL := False\<rparr>) \<and>
   generate_icons (demo_env\<lparr>has_cairosvg := False\<rparr>) demo_fs =
     (1, \<lparr>fs = demo_fs, log = [Print Missing_dependencies, Print Pip_install_pillow_cairosvg]\<rparr>) \<and>
   generate_simple_icons (demo_env\<lparr>has_PIL := False\<rparr>) demo_fs =
     (1, \<lparr>fs = demo_fs, log = [Traceback ImportError]\<rparr>)"
  using missing_dependency_stops_at_import [of "demo_env\<lparr>has_cairosvg := False\<rparr>" demo_fs]
    missing_dependency_stops_at_import [of "demo_env\<lparr>has_PIL := False\<rparr>" demo_fs]
  by simp

lemma source_stays_missing:
  "mkdir_parents (ICONS_DIR E) True f0 = Inr f1 \<Longrightarrow>
     exists f1 (SVG_SOURCE E) = exists f0 (SVG_SOURCE E)"
  using mkdir_parents_frame [of "ICONS_DIR E" True f0 f1 "SVG_SOURCE E"]
  by (auto simp: exists_def svg_not_above_icons)

text \<open>
  Claim C10: once the imports have succeeded, the first thing either script does is the
  call \<open>ICONS_DIR.mkdir(parents=True, exist_ok=True)\<close>, before the source is looked for
  and before anything is drawn. Unless a file sits where one of the directories should be,
  the icons directory exists at the end of the run, whatever happens later; in the vector
  variant this includes the run that stops with status 1 because the source is missing.
  The call creates missing parents and leaves an existing directory as it is.
\<close>

theorem icons_dir_created_at_start:
  "(has_PIL E \<longrightarrow> has_cairosvg E \<longrightarrow>
      (\<exists>rest. log (snd (generate_icons E f0)) = Call (Mkdir (ICONS_DIR E)) # rest) \<and>
      (no_file_above f0 (ICONS_DIR E) \<longrightarrow>
         is_dir (fs (snd (generate_icons E f0))) (ICONS_DIR E) \<and>
         (\<not> exists f0 (SVG_SOURCE E) \<longrightarrow> fst (generate_icons E f0) = 1))) \<and>
   (has_PIL E \<longrightarrow>
      (\<exists>rest. log (snd (generate_simple_icons E f0)) = Call (Mkdir (ICONS_DIR_simple E)) # rest) \<and>
      (no_file_above f0 (ICONS_DIR_simple E) \<longrightarrow>
         is_dir (fs (snd (generate_simple_icons E f0))) (ICONS_DIR_simple E))) \<and>
   (no_file_above f0 p \<longrightarrow> (\<exists>f1. mkdir_parents p True f0 = Inr f1 \<and> is_dir f1 p)) \<and>
   (is_dir f0 p \<longrightarrow> mkdir_parents p True f0 = Inr f0)"
proof (intro conjI impI)
  assume deps: "has_PIL E" "has_cairosvg E"
  show "\<exists>rest. log (snd (generate_icons E f0)) = Call (Mkdir (ICONS_DIR E)) # rest"
  proof (cases rule: generate_icons_cases [of E f0])
    case (raised f1 x s3)
    from try_icons_log [OF raised(5)] raised(6) show ?thesis by auto
  next
    case (succeeded f1 s3)
    from try_icons_log [OF succeeded(5)] succeeded(6) show ?thesis by auto
  qed (use deps in simp_all)
next
  assume deps: "has_PIL E" "has_cairosvg E" and free: "no_file_above f0 (ICONS_DIR E)"
  show "is_dir (fs (snd (generate_icons E f0))) (ICONS_DIR E)"
  proof (cases rule: generate_icons_cases [of E f0])
    case missing_dependency
    with deps show ?thesis by simp
  next
    case (mkdir_failed x)
    with mkdir_parents_no_file [OF free] show ?thesis by simp
  next
    case (no_source f1)
    with mkdir_parents_is_dir [OF no_source(3)] show ?thesis by simp
  next
    case (raised f1 x s3)
    from try_icons_dirs [OF raised(5), of "ICONS_DIR E"] mkdir_parents_is_dir [OF raised(3)]
      raised(6) show ?thesis by simp
  next
    case (succeeded f1 s3)
    from try_icons_dirs [OF succeeded(5), of "ICONS_DIR E"] mkdir_parents_is_dir [OF succeeded(3)]
      succeeded(6) show ?thesis by simp
  qed
next
  assume deps: "has_PIL E" "has_cairosvg E" and free: "no_file_above f0 (ICONS_DIR E)"
    and missing: "\<not> exists f0 (SVG_SOURCE E)"
  show "fst (generate_icons E f0) = 1"
  proof (cases rule: generate_icons_cases [of E f0])
    case (raised f1 x s3)
    then show ?thesis by simp
  next
    case (succeeded f1 s3)
    with source_stays_missing [OF succeeded(3)] missing show ?thesis by simp
  qed simp_all
next
  assume deps: "has_PIL E"
  show "\<exists>rest. log (snd (generate_simple_icons E f0)) = Call (Mkdir (ICONS_DIR_simple E)) # rest"
  proof (cases rule: generate_simple_icons_cases [of E f0])
    case (raised f1 x s3)
    from try_simple_log [OF raised(3)] raised(4) show ?thesis by auto
  next
    case (succeeded f1 s3)
    from try_simple_log [OF succeeded(3)] succeeded(4) show ?thesis by auto
  qed (use deps in simp_all)
next
  assume deps: "has_PIL E" and free: "no_file_above f0 (ICONS_DIR_simple E)"
  show "is_dir (fs (snd (generate_simple_icons E f0))) (ICONS_DIR_simple E)"
  proof (cases rule: generate_simple_icons_cases [of E f0])
    case import_failed
    with deps show ?thesis by simp
  next
    case (mkdir_failed x)
    with mkdir_parents_no_file [OF free] show ?thesis by simp
  next
    case (raised f1 x s3)
    from try_simple_dirs [OF raised(3), of "ICONS_DIR_simple E"] mkdir_parents_is_dir [OF raised(2)]
      raised(4) show ?thesis by simp
  next
    case (succeeded f1 s3)
    from try_simple_dirs [OF succeeded(3), of "ICONS_DIR_simple E"]
      mkdir_parents_is_dir [OF succeeded(2)] succeeded(4) show ?thesis by simp
  qed
next
  assume "no_file_above f0 p"
  then obtain f1 where "mkdir_parents p True f0 = Inr f1"
    using mkdir_parents_no_file by blast
  with mkdir_parents_is_dir [OF this]
  show "\<exists>f1. mkdir_parents p True f0 = Inr f1 \<and> is_dir f1 p" by simp
next
  assume "is_dir f0 p"
  then show "mkdir_parents p True f0 = Inr f0" by (rule mkdir_parents_existing)
qed

theorem icons_dir_created_at_start_witness:
  "has_PIL demo_env \<and> has_cairosvg demo_env \<and> no_file_above bare_fs (ICONS_DIR demo_env) \<and>
   no_file_above bare_fs (ICONS_DIR_simple demo_env) \<and>
   \<not> exists bare_fs (SVG_SOURCE demo_env) \<and>
   \<not> is_dir bare_fs (ICONS_DIR demo_env) \<and>
   is_dir (fs (snd (generate_icons demo_env bare_fs))) (ICONS_DIR demo_env) \<and>
   fst (generate_icons demo_env bare_fs) = 1 \<and>
   is_dir (fs (snd (generate_simple_icons demo_env bare_fs))) (ICONS_DIR_simple demo_env)"
proof -
  have h: "has_PIL demo_env" "has_cairosvg demo_env"
    "no_file_above bare_fs (ICONS_DIR demo_env)" "no_file_above bare_fs (ICONS_DIR_simple demo_env)"
    "\<not> exists bare_fs (SVG_SOURCE demo_env)" "\<not> is_dir bare_fs (ICONS_DIR demo_env)"
    by (simp_all add: demo_env_def bare_fs_def no_file_above_def exists_def is_dir_def path_defs
          ROOT_def ROOT_simple_def parent_def)
  with icons_dir_created_at_start [of demo_env bare_fs "[]"] show ?thesis by simp
qed

text \<open>
  Claim C9: in the vector variant, the rasterised image is written to
  \<open>public/temp_icon.png\<close>. A run that ends with exit status 0 has deleted that file
  before it printed its success lines, so the file does not exist afterwards. A run that
  rasterised (it printed the "Rendered" line) and then failed leaves the file on the disk,
  holding the 512x512 rasterisation.
\<close>

theorem temp_png_lifecycle:
  "(fst (generate_icons E f0) = 0 \<longrightarrow>
      fs (snd (generate_icons E f0)) (temp_png E) = None \<and>
      (\<exists>pre post.
         log (snd (generate_icons E f0)) =
           pre @ [Call (Unlink (temp_png E)), Print Cleaned_up, Print All_generated] @ post \<and>
         Call (Svg2png (SVG_SOURCE E) (temp_png E) 512 512) \<in> set pre)) \<and>
   (fst (generate_icons E f0) \<noteq> 0 \<longrightarrow>
      Print (Rendered_SVG_to (temp_png E)) \<in> set (log (snd (generate_icons E f0))) \<longrightarrow>
      (\<exists>px0. fs (snd (generate_icons E f0)) (temp_png E) =
         Some (File (Img (PNG False) (Image 512 512 px0)))))"
proof (intro conjI impI)
  assume ok: "fst (generate_icons E f0) = 0"
  from ok show "fs (snd (generate_icons E f0)) (temp_png E) = None"
    by (rule generate_icons_success) simp
  from ok show "\<exists>pre post.
         log (snd (generate_icons E f0)) =
           pre @ [Call (Unlink (temp_png E)), Print Cleaned_up, Print All_generated] @ post \<and>
         Call (Svg2png (SVG_SOURCE E) (temp_png E) 512 512) \<in> set pre"
  proof (rule generate_icons_success)
    fix f1 src px0 s3
    assume gs: "generate_sizes E (Image 512 512 px0) SIZES
       \<lparr>fs = f1(temp_png E \<mapsto> rendered E px0), log = after_open E\<rparr> = (None, s3)"
    and fin: "snd (generate_icons E f0) =
       s3\<lparr>fs := (fs s3)(temp_png E := None),
          log := log s3 @ after_sizes E @
                 concat (map (listing_events E ((fs s3)(temp_png E := None))) (map fst SIZES))\<rparr>"
    have l: "log s3 = after_open E @ concat (map (entry_events E) SIZES)"
      using gs by (rule generate_icons_success_log)
    show ?thesis
      by (rule exI [of _ "log s3"],
          rule exI [of _ "Print Generated_files #
                 concat (map (listing_events E ((fs s3)(temp_png E := None))) (map fst SIZES))"])
         (simp add: fin l)
  qed
next
  assume bad: "fst (generate_icons E f0) \<noteq> 0"
    and rendered: "Print (Rendered_SVG_to (temp_png E)) \<in> set (log (snd (generate_icons E f0)))"
  show "\<exists>px0. fs (snd (generate_icons E f0)) (temp_png E) =
         Some (File (Img (PNG False) (Image 512 512 px0)))"
  proof (cases rule: generate_icons_cases [of E f0])
    case missing_dependency
    with rendered show ?thesis by simp
  next
    case (mkdir_failed x)
    with rendered show ?thesis by simp
  next
    case (no_source f1)
    with rendered show ?thesis by simp
  next
    case (succeeded f1 s3)
    with bad show ?thesis by simp
  next
    case (raised f1 x s3)
    from raised(5) show ?thesis
    proof (cases rule: try_icons_cases)
      case (svg2png_failed y)
      with raised(6) rendered show ?thesis by simp
    next
      case (sizes_failed src px0 y)
      from generate_sizes_frame [OF sizes_failed(5) temp_not_entry]
      have "fs s3 (temp_png E) = Some (rendered E px0)" by simp
      with raised(6) show ?thesis by simp
    next
      case (finished src px0 s3')
      then show ?thesis by simp
    qed
  qed
qed

theorem temp_png_lifecycle_witness:
  "fst (generate_icons demo_env demo_fs) = 0 \<and>
   fs (snd (generate_icons demo_env demo_fs)) (temp_png demo_env) = None \<and>
   fst (generate_icons failing_env demo_fs) \<noteq> 0 \<and>
   Print (Rendered_SVG_to (temp_png failing_env)) \<in> set (log (snd (generate_icons failing_env demo_fs))) \<and>
   (\<exists>px0. fs (snd (generate_icons failing_env demo_fs)) (temp_png failing_env) =
         Some (File (Img (PNG False) (Image 512 512 px0))))"
proof -
  have h: "fst (generate_icons failing_env demo_fs) \<noteq> 0"
    "Print (Rendered_SVG_to (temp_png failing_env)) \<in> set (log (snd (generate_icons failing_env demo_fs)))"
    by (simp_all add: failing_env_def demo_env_def demo_fs_def run_defs)
  from temp_png_lifecycle [of demo_env demo_fs] temp_png_lifecycle [of failing_env demo_fs]
    demo_generate_icons_exit h
  show ?thesis by simp
qed

lemma generated_not_in_listing1:
  "Print (Generated n w h) \<notin> set (listing_events E f name)"
  by (simp add: listing_events_def Let_def)

lemma generated_not_in_listing:
  "Print (Generated n w h) \<notin> set (concat (map (listing_events E f) names))"
  by (induction names) (simp_all add: listing_events_def Let_def)

lemma distinct_calls_prefix:
  "full = new @ rest \<Longrightarrow> distinct (calls (pre @ full)) \<Longrightarrow> distinct (calls (pre @ new))"
  by (auto simp: calls_append)

lemma distinct_calls_vector:
  "distinct (calls (after_open E @ concat (map (entry_events E) SIZES) @ after_sizes E @
     concat (map (listing_events E f) (map fst SIZES))))"
  by (simp add: SIZES_def entry_events_def entry_path_def entry_encoding_def listing_events_def
        path_defs endswith_def Let_def)

lemma distinct_calls_vector_sizes:
  "distinct (calls (after_open E @ concat (map (entry_events E) SIZES)))"
  by (simp add: SIZES_def entry_events_def entry_path_def entry_encoding_def path_defs endswith_def)

lemma distinct_calls_simple:
  "distinct (calls (after_512 E @ concat (map (other_events E base_image) sizes)))"
  by (simp add: sizes_def other_events_def other_path_def other_encoding_def icon512_def
        path_defs endswith_def base_size_def split: sum.splits)

lemma generate_icons_written:
  assumes "Print (Generated n w h) \<in> set (log (snd (generate_icons E f0)))"
  shows "(n, w, h) \<in> set SIZES \<and>
         (\<exists>f1 src px0 px.
            mkdir_parents (ICONS_DIR E) True f0 = Inr f1 \<and>
            read_file (SVG_SOURCE E) f1 = Inr src \<and> rasterize E src 512 512 = Inr px0 \<and>
            lanczos E (Image 512 512 px0) (w, h) = Inr px \<and>
            fs (snd (generate_icons E f0)) (joinpath (PUBLIC_DIR E) n) =
              Some (File (Img (if endswith n ''.ico'' then ICO (Some [(w, h)]) else PNG True)
                           (Image w h px))))"
proof -
  have main: ?thesis
    if gs: "generate_sizes E (Image 512 512 px0) SIZES s = (r, s3)"
      and ls: "log s = after_open E"
      and mem: "Print (Generated n w h) \<in> set (log s3)"
      and fin: "\<And>q. q \<noteq> temp_png E \<Longrightarrow> fs (snd (generate_icons E f0)) q = fs s3 q"
      and mk: "mkdir_parents (ICONS_DIR E) True f0 = Inr f1"
      and rd: "read_file (SVG_SOURCE E) f1 = Inr src"
      and ra: "rasterize E src 512 512 = Inr px0"
    for px0 s r s3 f1 src
  proof -
    from generate_sizes_written [OF gs distinct_entry_paths] ls obtain new where
      new: "log s3 = after_open E @ new" and
      w: "\<And>n w h. Print (Generated n w h) \<in> set new \<Longrightarrow>
          (n, w, h) \<in> set SIZES \<and>
          (\<exists>px. lanczos E (Image 512 512 px0) (w, h) = Inr px \<and>
             fs s3 (entry_path E (n, w, h)) =
               Some (File (Img (entry_encoding (n, w, h)) (Image w h px))))"
      by auto
    from mem new have "Print (Generated n w h) \<in> set new" by simp
    from w [OF this] obtain px where
      e: "(n, w, h) \<in> set SIZES" and
      lz: "lanczos E (Image 512 512 px0) (w, h) = Inr px" and
      f: "fs s3 (entry_path E (n, w, h)) = Some (File (Img (entry_encoding (n, w, h)) (Image w h px)))"
      by blast
    from e temp_not_entry [of E] have "entry_path E (n, w, h) \<noteq> temp_png E" by force
    from fin [OF this] f
    have "fs (snd (generate_icons E f0)) (joinpath (PUBLIC_DIR E) n) =
        Some (File (Img (if endswith n ''.ico'' then ICO (Some [(w, h)]) else PNG True)
                     (Image w h px)))"
      by (simp add: entry_path_def entry_encoding_def)
    with e mk rd ra lz show ?thesis by blast
  qed
  show ?thesis
  proof (cases rule: generate_icons_cases [of E f0])
    case missing_dependency
    with assms show ?thesis by simp
  next
    case (mkdir_failed x)
    with assms show ?thesis by simp
  next
    case (no_source f1)
    with assms show ?thesis by simp
  next
    case (raised f1 x s3)
    from raised(5) show ?thesis
    proof (cases rule: try_icons_cases)
      case (svg2png_failed y)
      with raised(6) assms show ?thesis by simp
    next
      case (sizes_failed src px0 y)
      from sizes_failed(5) show ?thesis
      proof (rule main [where ?f1.0 = f1 and src = src])
        show "mkdir_parents (ICONS_DIR E) True f0 = Inr f1" by (rule raised(3))
        show "read_file (SVG_SOURCE E) f1 = Inr src" using sizes_failed(1) by simp
        show "rasterize E src 512 512 = Inr px0" by (rule sizes_failed(2))
        show "log (\<lparr>fs = f1, log = before_try E\<rparr>
           \<lparr>fs := (fs \<lparr>fs = f1, log = before_try E\<rparr>)(temp_png E \<mapsto> rendered E px0),
            log := log \<lparr>fs = f1, log = before_try E\<rparr> @
                   [Call (Svg2png (SVG_SOURCE E) (temp_png E) 512 512),
                    Print (Rendered_SVG_to (temp_png E)), Call (Open (temp_png E))]\<rparr>) = after_open E"
          by simp
        show "Print (Generated n w h) \<in> set (log s3)"
          using assms raised(6) by simp
        show "fs (snd (generate_icons E f0)) q = fs s3 q" for q
          using raised(6) by simp
      qed
    next
      case (finished src px0 s3')
      then show ?thesis by simp
    qed
  next
    case (succeeded f1 s3)
    from succeeded(5) show ?thesis
    proof (cases rule: try_icons_cases)
      case (finished src px0 s3')
      from finished(5) show ?thesis
      proof (rule main [where ?f1.0 = f1 and src = src])
        show "mkdir_parents (ICONS_DIR E) True f0 = Inr f1" by (rule succeeded(3))
        show "read_file (SVG_SOURCE E) f1 = Inr src" using finished(1) by simp
        show "rasterize E src 512 512 = Inr px0" by (rule finished(2))
        show "log (\<lparr>fs = f1, log = before_try E\<rparr>
           \<lparr>fs := (fs \<lparr>fs = f1, log = before_try E\<rparr>)(temp_png E \<mapsto> rendered E px0),
            log := log \<lparr>fs = f1, log = before_try E\<rparr> @
                   [Call (Svg2png (SVG_SOURCE E) (temp_png E) 512 512),
                    Print (Rendered_SVG_to (temp_png E)), Call (Open (temp_png E))]\<rparr>) = after_open E"
          by simp
        show "Print (Generated n w h) \<in> set (log s3')"
          using assms succeeded(6) finished(7) by (auto simp: generated_not_in_listing1)
        show "fs (snd (generate_icons E f0)) q = fs s3' q" if "q \<noteq> temp_png E" for q
          using succeeded(6) finished(7) that by simp
      qed
    qed simp_all
  qed
qed

lemma generate_icons_no_retry: "distinct (calls (log (snd (generate_icons E f0))))"
proof (cases rule: generate_icons_cases [of E f0])
  case (raised f1 x s3)
  from raised(5) show ?thesis
  proof (cases rule: try_icons_cases)
    case (svg2png_failed y)
    with raised(6) show ?thesis by (simp add: path_defs)
  next
    case (sizes_failed src px0 y)
    from generate_sizes_log [OF sizes_failed(5)] obtain new rest where
      l: "log s3 = after_open E @ new" and full: "concat (map (entry_events E) SIZES) = new @ rest"
      by auto
    from distinct_calls_prefix [OF full distinct_calls_vector_sizes]
    have "distinct (calls (after_open E @ new))" .
    with raised(6) l show ?thesis by (simp add: calls_append)
  next
    case (finished src px0 s3')
    then show ?thesis by simp
  qed
next
  case (succeeded f1 s3)
  from succeeded(5) show ?thesis
  proof (cases rule: try_icons_cases)
    case (finished src px0 s3')
    have "log s3' = after_open E @ concat (map (entry_events E) SIZES)"
      using generate_sizes_log [OF finished(5)] by auto
    with succeeded(6) finished(7) distinct_calls_vector [of E "(fs s3')(temp_png E := None)"]
    show ?thesis by simp
  qed simp_all
qed (simp_all add: path_defs)

lemma generate_simple_icons_written:
  assumes "Print (Generated_KB n w h k) \<in> set (log (snd (generate_simple_icons E f0)))"
  shows "w = h \<and> (n, w) \<in> set sizes \<and>
         (\<exists>base_image px.
            fst (draw_sparkle_star E base_size None (start f0)) = Inr base_image \<and>
            lanczos E base_image (w, w) = Inr px \<and>
            fs (snd (generate_simple_icons E f0)) (joinpath (PUBLIC_DIR_simple E) n) =
              Some (File (Img (if endswith n ''.ico'' then ICO None else PNG False) (Image w w px))))"
proof -
  have main: ?thesis
    if gs: "generate_other_sizes E base_image sizes s = (r, s3)"
      and ls: "log s = after_512 E"
      and mem: "Print (Generated_KB n w h k) \<in> set (log s3)"
      and fin: "fs (snd (generate_simple_icons E f0)) = fs s3"
      and dr: "fst (draw_sparkle_star E base_size None t) = Inr base_image"
    for base_image s r s3 t
  proof -
    from dr have dr0: "fst (draw_sparkle_star E base_size None (start f0)) = Inr base_image"
      using draw_sparkle_star_pure [of E base_size None "start f0" t] by simp
    from generate_other_sizes_written [OF gs distinct_other_paths] ls obtain new where
      new: "log s3 = after_512 E @ new" and
      w0: "\<forall>n w h k. Print (Generated_KB n w h k) \<in> set new \<longrightarrow>
          w = h \<and> (n, w) \<in> set sizes \<and>
          (\<exists>px. lanczos E base_image (w, w) = Inr px \<and>
             fs s3 (other_path E (n, w)) =
               Some (File (Img (other_encoding (n, w)) (Image w w px))))"
      by auto
    from mem new have "Print (Generated_KB n w h k) \<in> set new" by simp
    with w0 have "w = h \<and> (n, w) \<in> set sizes \<and>
          (\<exists>px. lanczos E base_image (w, w) = Inr px \<and>
             fs s3 (other_path E (n, w)) =
               Some (File (Img (other_encoding (n, w)) (Image w w px))))"
      by blast
    then obtain px where e: "w = h" "(n, w) \<in> set sizes" and
      lz: "lanczos E base_image (w, w) = Inr px" and
      f: "fs s3 (other_path E (n, w)) = Some (File (Img (other_encoding (n, w)) (Image w w px)))"
      by blast
    from f fin
    have "fs (snd (generate_simple_icons E f0)) (joinpath (PUBLIC_DIR_simple E) n) =
        Some (File (Img (if endswith n ''.ico'' then ICO None else PNG False) (Image w w px)))"
      by (simp add: other_path_def other_encoding_def)
    with e dr0 lz show ?thesis by blast
  qed
  show ?thesis
  proof (cases rule: generate_simple_icons_cases [of E f0])
    case import_failed
    with assms show ?thesis by simp
  next
    case (mkdir_failed x)
    with assms show ?thesis by simp
  next
    case (raised f1 x s3)
    from raised(3) show ?thesis
    proof (cases rule: try_simple_cases)
      case (draw_failed y)
      with raised(4) assms show ?thesis by simp
    next
      case (save_failed base_image y)
      with raised(4) assms show ?thesis by simp
    next
      case (others_failed base_image y)
      from others_failed(4) show ?thesis
        by (rule main [where t = "\<lparr>fs = f1, log = before_try_simple E\<rparr>"])
           (use assms raised(4) others_failed(1) in simp_all)
    next
      case (finished base_image s3')
      then show ?thesis by simp
    qed
  next
    case (succeeded f1 s3)
    from succeeded(3) show ?thesis
    proof (cases rule: try_simple_cases)
      case (finished base_image s3')
      from finished(4) show ?thesis
        by (rule main [where t = "\<lparr>fs = f1, log = before_try_simple E\<rparr>"])
           (use assms succeeded(4) finished(6) finished(1) in simp_all)
    qed simp_all
  qed
qed

lemma generate_simple_icons_written_512:
  assumes "Print (Generated ''icons/icon-512x512.png'' 512 512) \<in>
             set (log (snd (generate_simple_icons E f0)))"
  shows "\<exists>base_image.
           fst (draw_sparkle_star E base_size None (start f0)) = Inr base_image \<and>
           im_width base_image = 512 \<and> im_height base_image = 512 \<and>
           fs (snd (generate_simple_icons E f0)) (icon512 E) =
             Some (File (Img (PNG False) base_image))"
proof -
  have main: ?thesis
    if gs: "generate_other_sizes E base_image sizes s = (r, s3)"
      and dr: "fst (draw_sparkle_star E base_size None t) = Inr base_image"
      and fs: "fs s (icon512 E) = Some (File (Img (PNG False) base_image))"
      and fin: "fs (snd (generate_simple_icons E f0)) = fs s3"
    for base_image s r s3 t
  proof -
    from generate_other_sizes_frame [OF gs icon512_not_other] fs fin
    have "fs (snd (generate_simple_icons E f0)) (icon512 E) =
        Some (File (Img (PNG False) base_image))" by simp
    moreover from dr have "fst (draw_sparkle_star E base_size None (start f0)) = Inr base_image"
      using draw_sparkle_star_pure [of E base_size None "start f0" t] by simp
    ultimately show ?thesis
      using draw_sparkle_star_size [OF dr] by (auto simp: base_size_def)
  qed
  show ?thesis
  proof (cases rule: generate_simple_icons_cases [of E f0])
    case import_failed
    with assms show ?thesis by simp
  next
    case (mkdir_failed x)
    with assms show ?thesis by simp
  next
    case (raised f1 x s3)
    from raised(3) show ?thesis
    proof (cases rule: try_simple_cases)
      case (draw_failed y)
      with raised(4) assms show ?thesis by simp
    next
      case (save_failed base_image y)
      with raised(4) assms show ?thesis by simp
    next
      case (others_failed base_image y)
      from others_failed(4) others_failed(1) show ?thesis
        by (rule main) (use raised(4) in simp_all)
    next
      case (finished base_image s3')
      then show ?thesis by simp
    qed
  next
    case (succeeded f1 s3)
    from succeeded(3) show ?thesis
    proof (cases rule: try_simple_cases)
      case (finished base_image s3')
      from finished(4) finished(1) show ?thesis
        by (rule main) (use succeeded(4) finished(6) in simp_all)
    qed simp_all
  qed
qed

lemma generate_simple_icons_no_retry: "distinct (calls (log (snd (generate_simple_icons E f0))))"
proof (cases rule: generate_simple_icons_cases [of E f0])
  case (raised f1 x s3)
  from raised(3) show ?thesis
  proof (cases rule: try_simple_cases)
    case (draw_failed y)
    with raised(4) show ?thesis by simp
  next
    case (save_failed base_image y)
    with raised(4) show ?thesis by simp
  next
    case (others_failed base_image y)
    from generate_other_sizes_log [OF others_failed(4)] obtain new rest where
      l: "log s3 = after_512 E @ new" and
      full: "concat (map (other_events E base_image) sizes) = new @ rest"
      by auto
    from distinct_calls_prefix [OF full distinct_calls_simple]
    have "distinct (calls (after_512 E @ new))" .
    with raised(4) l show ?thesis by (simp add: calls_append)
  next
    case (finished base_image s3')
    then show ?thesis by simp
  qed
next
  case (succeeded f1 s3)
  from succeeded(3) show ?thesis
  proof (cases rule: try_simple_cases)
    case (finished base_image s3')
    have "log s3' = after_512 E @ concat (map (other_events E base_image) sizes)"
      using generate_other_sizes_log [OF finished(4)] by auto
    with succeeded(4) finished(6) distinct_calls_simple [of E base_image]
    show ?thesis by (simp add: calls_append)
  qed simp_all
qed simp_all

lemma generate_icons_entered:
  assumes "has_PIL E" "has_cairosvg E" "mkdir_parents (ICONS_DIR E) True f0 = Inr f1"
    "exists f1 (SVG_SOURCE E)"
  obtains
    (raised) x s3 where "try_icons E \<lparr>fs = f1, log = before_try E\<rparr> = (Some x, s3)"
      "generate_icons E f0 = (1, s3\<lparr>log := log s3 @ [Print (Error_exn x)]\<rparr>)"
  | (succeeded) s3 where "try_icons E \<lparr>fs = f1, log = before_try E\<rparr> = (None, s3)"
      "generate_icons E f0 = (0, s3)"
  using assms by (cases rule: generate_icons_cases [of E f0]) simp_all

lemma generate_icons_handler:
  assumes "has_PIL E" "has_cairosvg E" "mkdir_parents (ICONS_DIR E) True f0 = Inr f1"
    "exists f1 (SVG_SOURCE E)"
    "try_icons E \<lparr>fs = f1, log = before_try E\<rparr> = (Some x, s3)"
  shows "generate_icons E f0 = (1, s3\<lparr>log := log s3 @ [Print (Error_exn x)]\<rparr>)"
  using assms(1-4) by (cases rule: generate_icons_entered) (use assms(5) in simp_all)

lemma read_file_exists: "read_file p f = Inr c \<Longrightarrow> exists f p"
  by (auto simp: read_file_def exists_def split: if_splits option.splits node.splits)

lemma generate_icons_rasterize_fails:
  assumes "has_PIL E" "has_cairosvg E" "mkdir_parents (ICONS_DIR E) True f0 = Inr f1"
    "read_file (SVG_SOURCE E) f1 = Inr src" "rasterize E src 512 512 = Inl x"
  shows "generate_icons E f0 =
     (1, \<lparr>fs = f1, log = before_try E @
            [Call (Svg2png (SVG_SOURCE E) (temp_png E) 512 512), Print (Error_exn x)]\<rparr>)"
proof -
  have "try_icons E \<lparr>fs = f1, log = before_try E\<rparr> =
      (Some x, \<lparr>fs = f1, log = before_try E @
                 [Call (Svg2png (SVG_SOURCE E) (temp_png E) 512 512)]\<rparr>)"
    using assms(4,5) by (simp add: try_icons_def svg2png_def emit_def Let_def)
  from generate_icons_handler [OF assms(1-3) read_file_exists [OF assms(4)] this]
  show ?thesis by simp
qed

lemma generate_icons_entry_fails:
  assumes deps: "has_PIL E" "has_cairosvg E" and mk: "mkdir_parents (ICONS_DIR E) True f0 = Inr f1"
    and rd: "read_file (SVG_SOURCE E) f1 = Inr src" and ra: "rasterize E src 512 512 = Inr px0"
    and e: "(n, w, h) \<in> set SIZES"
    and bad: "lanczos E (Image 512 512 px0) (w, h) = Inl x \<or> is_dir f1 (joinpath (PUBLIC_DIR E) n)"
  shows "fst (generate_icons E f0) = 1 \<and>
         (\<exists>y pre. log (snd (generate_icons E f0)) = pre @ [Print (Error_exn y)])"
  using deps mk read_file_exists [OF rd]
proof (cases rule: generate_icons_entered)
  case (raised y s3)
  then show ?thesis by simp
next
  case (succeeded s3)
  from succeeded(1) show ?thesis
  proof (cases rule: try_icons_cases)
    case (finished src' px0' s3')
    from finished(1,2) rd ra have px: "px0' = px0" by simp
    from finished(5) px
    have gs: "generate_sizes E (Image 512 512 px0) SIZES
        \<lparr>fs = f1(temp_png E \<mapsto> rendered E px0), log = after_open E\<rparr> = (None, s3')"
      by simp
    from generate_icons_success_files [OF gs e] obtain px where
      lz: "lanczos E (Image 512 512 px0) (w, h) = Inr px" and
      f: "fs s3' (entry_path E (n, w, h)) =
            Some (File (Img (entry_encoding (n, w, h)) (Image w h px)))"
      by blast
    from e temp_not_entry [of E] have ne: "entry_path E (n, w, h) \<noteq> temp_png E" by force
    have nn: "entry_path E (n, w, h) \<noteq> []"
      using e by (auto simp: SIZES_def entry_path_def path_defs)
    from generate_sizes_dirs [OF gs, of "entry_path E (n, w, h)"] ne nn f
    have "\<not> is_dir f1 (entry_path E (n, w, h))"
      by (simp add: is_dir_def)
    with bad lz show ?thesis by (simp add: entry_path_def)
  qed simp_all
qed

lemma generate_simple_icons_entered:
  assumes "has_PIL E" "mkdir_parents (ICONS_DIR_simple E) True f0 = Inr f1"
  obtains
    (raised) x s3 where "try_simple E \<lparr>fs = f1, log = before_try_simple E\<rparr> = (Some x, s3)"
      "generate_simple_icons E f0 =
         (1, s3\<lparr>log := log s3 @ [Print (Error_exn x), Traceback x]\<rparr>)"
  | (succeeded) s3 where "try_simple E \<lparr>fs = f1, log = before_try_simple E\<rparr> = (None, s3)"
      "generate_simple_icons E f0 = (0, s3)"
  using assms by (cases rule: generate_simple_icons_cases [of E f0]) simp_all

lemma generate_simple_icons_handler:
  assumes "has_PIL E" "mkdir_parents (ICONS_DIR_simple E) True f0 = Inr f1"
    "try_simple E \<lparr>fs = f1, log = before_try_simple E\<rparr> = (Some x, s3)"
  shows "generate_simple_icons E f0 =
     (1, s3\<lparr>log := log s3 @ [Print (Error_exn x), Traceback x]\<rparr>)"
  using assms(1,2) by (cases rule: generate_simple_icons_entered) (use assms(3) in simp_all)

lemma generate_simple_icons_draw_fails:
  assumes "has_PIL E" "mkdir_parents (ICONS_DIR_simple E) True f0 = Inr f1"
    "fst (draw_sparkle_star E base_size None (start f0)) = Inl x"
  shows "generate_simple_icons E f0 =
     (1, \<lparr>fs = f1, log = before_try_simple E @
            [Call (Draw_sparkle_star base_size), Print (Error_exn x), Traceback x]\<rparr>)"
proof -
  let ?s = "\<lparr>fs = f1, log = before_try_simple E\<rparr>"
  have d: "fst (draw_sparkle_star E base_size None ?s) = Inl x"
    using assms(3) draw_sparkle_star_pure [of E base_size None ?s "start f0"] by simp
  obtain r s' where t: "try_simple E ?s = (r, s')" by force
  then have "try_simple E ?s =
      (Some x, \<lparr>fs = f1, log = before_try_simple E @ [Call (Draw_sparkle_star base_size)]\<rparr>)"
    by (cases rule: try_simple_cases) (use d t in simp_all)
  from generate_simple_icons_handler [OF assms(1,2) this] show ?thesis by simp
qed

lemma generate_simple_icons_entry_fails:
  assumes deps: "has_PIL E" and mk: "mkdir_parents (ICONS_DIR_simple E) True f0 = Inr f1"
    and dr: "fst (draw_sparkle_star E base_size None (start f0)) = Inr base_image"
    and e: "(n, w) \<in> set sizes"
    and bad: "lanczos E base_image (w, w) = Inl x \<or> is_dir f1 (joinpath (PUBLIC_DIR_simple E) n)"
  shows "fst (generate_simple_icons E f0) = 1 \<and>
         (\<exists>y pre. log (snd (generate_simple_icons E f0)) = pre @ [Print (Error_exn y), Traceback y])"
  using deps mk
proof (cases rule: generate_simple_icons_entered)
  case (raised y s3)
  then show ?thesis by simp
next
  case (succeeded s3)
  let ?s = "\<lparr>fs = f1, log = before_try_simple E\<rparr>"
  have d: "fst (draw_sparkle_star E base_size None ?s) = Inr base_image"
    using dr draw_sparkle_star_pure [of E base_size None ?s "start f0"] by simp
  from succeeded(1) show ?thesis
  proof (cases rule: try_simple_cases)
    case (finished base_image' s3')
    from finished(1) d have b: "base_image' = base_image" by simp
    from finished(4) b
    have gs: "generate_other_sizes E base_image sizes
        \<lparr>fs = f1(icon512 E \<mapsto> File (Img (PNG False) base_image)), log = after_512 E\<rparr> =
        (None, s3')"
      by simp
    from generate_other_sizes_success_files [OF gs e] obtain px where
      lz: "lanczos E base_image (w, w) = Inr px" and
      f: "fs s3' (other_path E (n, w)) = Some (File (Img (other_encoding (n, w)) (Image w w px)))"
      by blast
    from e icon512_not_other [of E] have ne: "other_path E (n, w) \<noteq> icon512 E" by force
    have nn: "other_path E (n, w) \<noteq> []"
      using e by (auto simp: sizes_def other_path_def path_defs)
    from generate_other_sizes_dirs [OF gs, of "other_path E (n, w)"] ne nn f
    have "\<not> is_dir f1 (other_path E (n, w))"
      by (simp add: is_dir_def)
    with bad lz show ?thesis by (simp add: other_path_def)
  qed simp_all
qed

text \<open>
  Claim C5: an exception that leaves the \<open>try\<close> block of either script, whichever operation
  raised it, meets the one handler at the top level: the run ends with status 1, the state
  is the one in which the exception was raised with the error message appended to the
  output (and the traceback, in the procedural variant), and the handler leaves the
  filesystem as it was at that moment, so nothing is rolled back. Library failures do
  leave the block: a failing rasterisation or drawing ends the run at once with that very
  exception, and a failing Lanczos resize of any table entry, or a directory sitting at an
  entry's output path, ends it with status 1 and an error message. Every entry whose
  "Generated" line was printed still has, at the end of the run, exactly the file that was
  saved for it: the resized base image in the entry's encoding, also when a later entry
  failed. Nothing is retried: no call (rasterise, open, draw, resize, save, unlink, stat,
  mkdir, exists) occurs twice in a run.
\<close>

theorem exceptions_abort_without_rollback:
  "(\<forall>f1. has_PIL E \<longrightarrow> has_cairosvg E \<longrightarrow> mkdir_parents (ICONS_DIR E) True f0 = Inr f1 \<longrightarrow>
      (\<forall>x s3. exists f1 (SVG_SOURCE E) \<longrightarrow>
         try_icons E \<lparr>fs = f1, log = before_try E\<rparr> = (Some x, s3) \<longrightarrow>
         generate_icons E f0 = (1, s3\<lparr>log := log s3 @ [Print (Error_exn x)]\<rparr>)) \<and>
      (\<forall>src x. read_file (SVG_SOURCE E) f1 = Inr src \<longrightarrow> rasterize E src 512 512 = Inl x \<longrightarrow>
         generate_icons E f0 =
           (1, \<lparr>fs = f1, log = before_try E @
                  [Call (Svg2png (SVG_SOURCE E) (temp_png E) 512 512), Print (Error_exn x)]\<rparr>)) \<and>
      (\<forall>src px0 n w h x.
         read_file (SVG_SOURCE E) f1 = Inr src \<longrightarrow> rasterize E src 512 512 = Inr px0 \<longrightarrow>
         (n, w, h) \<in> set SIZES \<longrightarrow>
         lanczos E (Image 512 512 px0) (w, h) = Inl x \<or> is_dir f1 (joinpath (PUBLIC_DIR E) n) \<longrightarrow>
         fst (generate_icons E f0) = 1 \<and>
         (\<exists>y pre. log (snd (generate_icons E f0)) = pre @ [Print (Error_exn y)]))) \<and>
   (\<forall>n w h. Print (Generated n w h) \<in> set (log (snd (generate_icons E f0))) \<longrightarrow>
      (n, w, h) \<in> set SIZES \<and>
      (\<exists>f1 src px0 px.
         mkdir_parents (ICONS_DIR E) True f0 = Inr f1 \<and>
         read_file (SVG_SOURCE E) f1 = Inr src \<and> rasterize E src 512 512 = Inr px0 \<and>
         lanczos E (Image 512 512 px0) (w, h) = Inr px \<and>
         fs (snd (generate_icons E f0)) (joinpath (PUBLIC_DIR E) n) =
           Some (File (Img (if endswith n ''.ico'' then ICO (Some [(w, h)]) else PNG True)
                        (Image w h px))))) \<and>
   distinct (calls (log (snd (generate_icons E f0)))) \<and>
   (\<forall>f1. has_PIL E \<longrightarrow> mkdir_parents (ICONS_DIR_simple E) True f0 = Inr f1 \<longrightarrow>
      (\<forall>x s3. try_simple E \<lparr>fs = f1, log = before_try_simple E\<rparr> = (Some x, s3) \<longrightarrow>
         generate_simple_icons E f0 =
           (1, s3\<lparr>log := log s3 @ [Print (Error_exn x), Traceback x]\<rparr>)) \<and>
      (\<forall>x. fst (draw_sparkle_star E base_size None (start f0)) = Inl x \<longrightarrow>
         generate_simple_icons E f0 =
           (1, \<lparr>fs = f1, log = before_try_simple E @
                  [Call (Draw_sparkle_star base_size), Print (Error_exn x), Traceback x]\<rparr>)) \<and>
      (\<forall>base_image n w x.
         fst (draw_sparkle_star E base_size None (start f0)) = Inr base_image \<longrightarrow>
         (n, w) \<in> set sizes \<longrightarrow>
         lanczos E base_image (w, w) = Inl x \<or> is_dir f1 (joinpath (PUBLIC_DIR_simple E) n) \<longrightarrow>
         fst (generate_simple_icons E f0) = 1 \<and>
         (\<exists>y pre. log (snd (generate_simple_icons E f0)) =
            pre @ [Print (Error_exn y), Traceback y]))) \<and>
   (\<forall>n w h k. Print (Generated_KB n w h k) \<in> set (log (snd (generate_simple_icons E f0))) \<longrightarrow>
      w = h \<and> (n, w) \<in> set sizes \<and>
      (\<exists>base_image px.
         fst (draw_sparkle_star E base_size None (start f0)) = Inr base_image \<and>
         lanczos E base_image (w, w) = Inr px \<and>
         fs (snd (generate_simple_icons E f0)) (joinpath (PUBLIC_DIR_simple E) n) =
           Some (File (Img (if endswith n ''.ico'' then ICO None else PNG False)
                        (Image w w px))))) \<and>
   (Print (Generated ''icons/icon-512x512.png'' 512 512) \<in>
      set (log (snd (generate_simple_icons E f0))) \<longrightarrow>
      (\<exists>base_image.
         fst (draw_sparkle_star E base_size None (start f0)) = Inr base_image \<and>
         fs (snd (generate_simple_icons E f0))
           (joinpath (joinpath (PUBLIC_DIR_simple E) ''icons'') ''icon-512x512.png'') =
           Some (File (Img (PNG False) base_image)))) \<and>
   distinct (calls (log (snd (generate_simple_icons E f0))))"
proof (intro conjI allI impI)
  fix f1 x s3
  assume "has_PIL E" "has_cairosvg E" "mkdir_parents (ICONS_DIR E) True f0 = Inr f1"
    "exists f1 (SVG_SOURCE E)" "try_icons E \<lparr>fs = f1, log = before_try E\<rparr> = (Some x, s3)"
  then show "generate_icons E f0 = (1, s3\<lparr>log := log s3 @ [Print (Error_exn x)]\<rparr>)"
    by (rule generate_icons_handler)
next
  fix f1 src x
  assume "has_PIL E" "has_cairosvg E" "mkdir_parents (ICONS_DIR E) True f0 = Inr f1"
    "read_file (SVG_SOURCE E) f1 = Inr src" "rasterize E src 512 512 = Inl x"
  then show "generate_icons E f0 =
      (1, \<lparr>fs = f1, log = before_try E @
             [Call (Svg2png (SVG_SOURCE E) (temp_png E) 512 512), Print (Error_exn x)]\<rparr>)"
    by (rule generate_icons_rasterize_fails)
next
  fix f1 src px0 n w h x
  assume a: "has_PIL E" "has_cairosvg E" "mkdir_parents (ICONS_DIR E) True f0 = Inr f1"
    "read_file (SVG_SOURCE E) f1 = Inr src" "rasterize E src 512 512 = Inr px0"
    "(n, w, h) \<in> set SIZES"
    "lanczos E (Image 512 512 px0) (w, h) = Inl x \<or> is_dir f1 (joinpath (PUBLIC_DIR E) n)"
  from generate_icons_entry_fails [OF a]
  show "fst (generate_icons E f0) = 1"
    and "\<exists>y pre. log (snd (generate_icons E f0)) = pre @ [Print (Error_exn y)]"
    by simp_all
next
  fix n w h
  assume g: "Print (Generated n w h) \<in> set (log (snd (generate_icons E f0)))"
  from generate_icons_written [OF g] show "(n, w, h) \<in> set SIZES" ..
  from generate_icons_written [OF g]
  show "\<exists>f1 src px0 px.
         mkdir_parents (ICONS_DIR E) True f0 = Inr f1 \<and>
         read_file (SVG_SOURCE E) f1 = Inr src \<and> rasterize E src 512 512 = Inr px0 \<and>
         lanczos E (Image 512 512 px0) (w, h) = Inr px \<and>
         fs (snd (generate_icons E f0)) (joinpath (PUBLIC_DIR E) n) =
           Some (File (Img (if endswith n ''.ico'' then ICO (Some [(w, h)]) else PNG True)
                        (Image w h px)))" ..
next
  show "distinct (calls (log (snd (generate_icons E f0))))"
    by (rule generate_icons_no_retry)
next
  fix f1 x s3
  assume "has_PIL E" "mkdir_parents (ICONS_DIR_simple E) True f0 = Inr f1"
    "try_simple E \<lparr>fs = f1, log = before_try_simple E\<rparr> = (Some x, s3)"
  then show "generate_simple_icons E f0 =
      (1, s3\<lparr>log := log s3 @ [Print (Error_exn x), Traceback x]\<rparr>)"
    by (rule generate_simple_icons_handler)
next
  fix f1 x
  assume "has_PIL E" "mkdir_parents (ICONS_DIR_simple E) True f0 = Inr f1"
    "fst (draw_sparkle_star E base_size None (start f0)) = Inl x"
  then show "generate_simple_icons E f0 =
      (1, \<lparr>fs = f1, log = before_try_simple E @
             [Call (Draw_sparkle_star base_size), Print (Error_exn x), Traceback x]\<rparr>)"
    by (rule generate_simple_icons_draw_fails)
next
  fix f1 base_image n w x
  assume a: "has_PIL E" "mkdir_parents (ICONS_DIR_simple E) True f0 = Inr f1"
    "fst (draw_sparkle_star E base_size None (start f0)) = Inr base_image"
    "(n, w) \<in> set sizes"
    "lanczos E base_image (w, w) = Inl x \<or> is_dir f1 (joinpath (PUBLIC_DIR_simple E) n)"
  from generate_simple_icons_entry_fails [OF a]
  show "fst (generate_simple_icons E f0) = 1"
    and "\<exists>y pre. log (snd (generate_simple_icons E f0)) = pre @ [Print (Error_exn y), Traceback y]"
    by simp_all
next
  fix n w h k
  assume g: "Print (Generated_KB n w h k) \<in> set (log (snd (generate_simple_icons E f0)))"
  from generate_simple_icons_written [OF g] show "w = h" ..
  from generate_simple_icons_written [OF g] show "(n, w) \<in> set sizes" by blast
  from generate_simple_icons_written [OF g]
  show "\<exists>base_image px.
         fst (draw_sparkle_star E base_size None (start f0)) = Inr base_image \<and>
         lanczos E base_image (w, w) = Inr px \<and>
         fs (snd (generate_simple_icons E f0)) (joinpath (PUBLIC_DIR_simple E) n) =
           Some (File (Img (if endswith n ''.ico'' then ICO None else PNG False)
                        (Image w w px)))"
    by blast
next
  assume g: "Print (Generated ''icons/icon-512x512.png'' 512 512) \<in>
      set (log (snd (generate_simple_icons E f0)))"
  from generate_simple_icons_written_512 [OF g]
  show "\<exists>base_image.
         fst (draw_sparkle_star E base_size None (start f0)) = Inr base_image \<and>
         fs (snd (generate_simple_icons E f0))
           (joinpath (joinpath (PUBLIC_DIR_simple E) ''icons'') ''icon-512x512.png'') =
           Some (File (Img (PNG False) base_image))"
    by (auto simp: icon512_def)
next
  show "distinct (calls (log (snd (generate_simple_icons E f0))))"
    by (rule generate_simple_icons_no_retry)
qed

theorem exceptions_abort_without_rollback_witness:
  "has_PIL failing_env \<and> has_cairosvg failing_env \<and>
   mkdir_parents (ICONS_DIR failing_env) True demo_fs =
     Inr (demo_fs([''repo'', ''public'', ''icons''] \<mapsto> Dir)) \<and>
   read_file (SVG_SOURCE failing_env) (demo_fs([''repo'', ''public'', ''icons''] \<mapsto> Dir)) =
     Inr (Raw ''<svg/>'') \<and>
   rasterize failing_env (Raw ''<svg/>'') 512 512 = Inr 7 \<and>
   (''icons/apple-touch-icon.png'', 180, 180) \<in> set SIZES \<and>
   lanczos failing_env (Image 512 512 7) (180, 180) = Inl (LibraryError ''resize'') \<and>
   fst (generate_icons failing_env demo_fs) = 1 \<and>
   (\<exists>y pre. log (snd (generate_icons failing_env demo_fs)) = pre @ [Print (Error_exn y)]) \<and>
   Print (Generated ''favicon.ico'' 64 64) \<in> set (log (snd (generate_icons failing_env demo_fs))) \<and>
   (\<exists>px. lanczos failing_env (Image 512 512 7) (64, 64) = Inr px \<and>
      fs (snd (generate_icons failing_env demo_fs))
        (joinpath (PUBLIC_DIR failing_env) ''favicon.ico'') =
        Some (File (Img (ICO (Some [(64, 64)])) (Image 64 64 px)))) \<and>
   mkdir_parents (ICONS_DIR_simple failing_env) True demo_fs =
     Inr (demo_fs([''repo'', ''scripts'', ''public''] \<mapsto> Dir,
                  [''repo'', ''scripts'', ''public'', ''icons''] \<mapsto> Dir)) \<and>
   fst (draw_sparkle_star failing_env base_size None (start demo_fs)) = Inr (Image 512 512 6) \<and>
   (''icons/apple-touch-icon.png'', 180) \<in> set sizes \<and>
   lanczos failing_env (Image 512 512 6) (180, 180) = Inl (LibraryError ''resize'') \<and>
   fst (generate_simple_icons failing_env demo_fs) = 1 \<and>
   (\<exists>y pre. log (snd (generate_simple_icons failing_env demo_fs)) =
      pre @ [Print (Error_exn y), Traceback y]) \<and>
   Print (Generated_KB ''icons/icon-192x192.png'' 192 192 1024) \<in>
     set (log (snd (generate_simple_icons failing_env demo_fs))) \<and>
   (\<exists>px. lanczos failing_env (Image 512 512 6) (192, 192) = Inr px \<and>
      fs (snd (generate_simple_icons failing_env demo_fs))
        (joinpath (PUBLIC_DIR_simple failing_env) ''icons/icon-192x192.png'') =
        Some (File (Img (PNG False) (Image 192 192 px))))"
proof -
  let ?f1 = "demo_fs([''repo'', ''public'', ''icons''] \<mapsto> Dir)"
  let ?f2 = "demo_fs([''repo'', ''scripts'', ''public''] \<mapsto> Dir,
                     [''repo'', ''scripts'', ''public'', ''icons''] \<mapsto> Dir)"
  have v:
    "has_PIL failing_env" "has_cairosvg failing_env"
    "mkdir_parents (ICONS_DIR failing_env) True demo_fs = Inr ?f1"
    "read_file (SVG_SOURCE failing_env) ?f1 = Inr (Raw ''<svg/>'')"
    "rasterize failing_env (Raw ''<svg/>'') 512 512 = Inr 7"
    "(''icons/apple-touch-icon.png'', 180, 180) \<in> set SIZES"
    "lanczos failing_env (Image 512 512 7) (180, 180) = Inl (LibraryError ''resize'')"
    by (simp_all add: failing_env_def demo_env_def demo_fs_def run_defs)
  have g: "Print (Generated ''favicon.ico'' 64 64) \<in>
      set (log (snd (generate_icons failing_env demo_fs)))"
    by (simp add: failing_env_def demo_env_def demo_fs_def run_defs)
  have p:
    "mkdir_parents (ICONS_DIR_simple failing_env) True demo_fs = Inr ?f2"
    "fst (draw_sparkle_star failing_env base_size None (start demo_fs)) = Inr (Image 512 512 6)"
    "(''icons/apple-touch-icon.png'', 180) \<in> set sizes"
    "lanczos failing_env (Image 512 512 6) (180, 180) = Inl (LibraryError ''resize'')"
    by (simp_all add: failing_env_def demo_env_def demo_fs_def run_defs sparkle_dots.simps)
  have k: "Print (Generated_KB ''icons/icon-192x192.png'' 192 192 1024) \<in>
      set (log (snd (generate_simple_icons failing_env demo_fs)))"
    by (simp add: failing_env_def demo_env_def demo_fs_def run_defs)
  note t = exceptions_abort_without_rollback [of failing_env demo_fs]
  note tv = t [THEN conjunct1, rule_format, OF v(1) v(2) v(3)]
  from tv [THEN conjunct2, THEN conjunct2, rule_format, OF v(4) v(5) v(6) disjI1 [OF v(7)]]
  have a: "fst (generate_icons failing_env demo_fs) = 1 \<and>
      (\<exists>y pre. log (snd (generate_icons failing_env demo_fs)) = pre @ [Print (Error_exn y)])" .
  from t [THEN conjunct2, THEN conjunct1, rule_format, OF g] obtain f1 src px0 px where
    b: "mkdir_parents (ICONS_DIR failing_env) True demo_fs = Inr f1"
       "read_file (SVG_SOURCE failing_env) f1 = Inr src"
       "rasterize failing_env src 512 512 = Inr px0"
       "lanczos failing_env (Image 512 512 px0) (64, 64) = Inr px"
       "fs (snd (generate_icons failing_env demo_fs))
          (joinpath (PUBLIC_DIR failing_env) ''favicon.ico'') =
          Some (File (Img (if endswith ''favicon.ico'' ''.ico'' then ICO (Some [(64, 64)])
                           else PNG True) (Image 64 64 px)))"
    by blast
  from b(1,2) v(3,4) have "src = Raw ''<svg/>''" by simp
  with b(3) v(5) have "px0 = 7" by simp
  with b(4,5) have b': "\<exists>px. lanczos failing_env (Image 512 512 7) (64, 64) = Inr px \<and>
      fs (snd (generate_icons failing_env demo_fs))
        (joinpath (PUBLIC_DIR failing_env) ''favicon.ico'') =
        Some (File (Img (ICO (Some [(64, 64)])) (Image 64 64 px)))"
    by (simp add: endswith_def)
  note tp = t [THEN conjunct2, THEN conjunct2, THEN conjunct2, THEN conjunct1, rule_format,
    OF v(1) p(1)]
  from tp [THEN conjunct2, THEN conjunct2, rule_format, OF p(2) p(3) disjI1 [OF p(4)]]
  have c: "fst (generate_simple_icons failing_env demo_fs) = 1 \<and>
      (\<exists>y pre. log (snd (generate_simple_icons failing_env demo_fs)) =
         pre @ [Print (Error_exn y), Traceback y])" .
  from t [THEN conjunct2, THEN conjunct2, THEN conjunct2, THEN conjunct2, THEN conjunct1,
    rule_format, OF k] obtain base_image px where
    d: "fst (draw_sparkle_star failing_env base_size None (start demo_fs)) = Inr base_image"
       "lanczos failing_env base_image (192, 192) = Inr px"
       "fs (snd (generate_simple_icons failing_env demo_fs))
          (joinpath (PUBLIC_DIR_simple failing_env) ''icons/icon-192x192.png'') =
          Some (File (Img (if endswith ''icons/icon-192x192.png'' ''.ico'' then ICO None
                           else PNG False) (Image 192 192 px)))"
    by blast
  from d(1) p(2) have "base_image = Image 512 512 6" by simp
  with d(2,3) have d': "\<exists>px. lanczos failing_env (Image 512 512 6) (192, 192) = Inr px \<and>
      fs (snd (generate_simple_icons failing_env demo_fs))
        (joinpath (PUBLIC_DIR_simple failing_env) ''icons/icon-192x192.png'') =
        Some (File (Img (PNG False) (Image 192 192 px)))"
    by (simp add: endswith_def)
  from v g p k a b' c d' show ?thesis by blast
qed









end
